theory Spec2Isabelle
  imports Complex_Main "HOL-Library.Sublist" "HOL-Library.AList"
begin

section \<open>JavaScript strings\<close>

text \<open>
  The installer only ever looks at text through four string methods: \<open>includes\<close>,
  \<open>indexOf\<close>, \<open>slice\<close> and \<open>trim\<close>. A JavaScript string is a sequence of UTF-16
  code units, and the methods count and compare code units; they are modelled on
  lists. Every literal the program searches for or writes is ASCII.

  The template \<open>layout/theme.liquid\<close> is the one file that the program reads, cuts
  with \<open>slice\<close> and writes back. Its content is kept as the text that
  \<open>readFileSync(_, "utf8")\<close> returns for it: a list of code units, a character outside
  the Basic Multilingual Plane being a high surrogate followed by a low one. The other
  files are only searched for ASCII lines, created or appended to, and the answers to
  the prompt are only trimmed and compared; they are kept as \<open>string\<close>.
\<close>

type_synonym code_unit = nat

type_synonym utf16 = "code_unit list"

text \<open>A literal of the program as code units.\<close>

definition text_of :: "string \<Rightarrow> utf16" where
  "text_of s = map of_char s"

definition is_high :: "code_unit \<Rightarrow> bool" where
  "is_high u \<longleftrightarrow> 0xD800 \<le> u \<and> u \<le> 0xDBFF"

definition is_low :: "code_unit \<Rightarrow> bool" where
  "is_low u \<longleftrightarrow> 0xDC00 \<le> u \<and> u \<le> 0xDFFF"

text \<open>
  What a file holds after \<open>writeFileSync(path, s)\<close>, as the next read returns it. The
  string is encoded as UTF-8 and a surrogate that is not half of a pair is written as
  U+FFFD; everything else comes back as it was. (This is \<open>s.toWellFormed()\<close>.) A text
  that a read returns is always well formed: what is not valid UTF-8 in the file has
  reached the program as U+FFFD already, so the model does not tell a file with such
  bytes from one that holds U+FFFD in their place.
\<close>

fun toWellFormed :: "utf16 \<Rightarrow> utf16" where
  "toWellFormed [] = []"
| "toWellFormed [u] = [if is_high u \<or> is_low u then 0xFFFD else u]"
| "toWellFormed (u # v # r) =
     (if is_high u \<and> is_low v then u # v # toWellFormed r
      else (if is_high u \<or> is_low u then 0xFFFD else u) # toWellFormed (v # r))"

definition isWellFormed :: "utf16 \<Rightarrow> bool" where
  "isWellFormed s \<longleftrightarrow> toWellFormed s = s"

text \<open>A code unit with the surrogates blurred to U+FFFD: a string and what a write makes
  of it agree up to this, unit by unit.\<close>

definition masked :: "code_unit \<Rightarrow> code_unit" where
  "masked u = (if is_high u \<or> is_low u then 0xFFFD else u)"

definition is_ascii :: "utf16 \<Rightarrow> bool" where
  "is_ascii s = list_all (\<lambda>u. u < 128) s"

text \<open>\<open>s.includes(pat)\<close>: \<open>pat\<close> occurs in \<open>s\<close> at some position.\<close>

fun str_includes :: "'a list \<Rightarrow> 'a list \<Rightarrow> bool" where
  "str_includes [] pat = (pat = [])"
| "str_includes (x # xs) pat = (prefix pat (x # xs) \<or> str_includes xs pat)"

text \<open>\<open>s.indexOf(pat)\<close>: the least position at which \<open>pat\<close> occurs, or \<open>-1\<close>.\<close>

fun str_indexOf :: "'a list \<Rightarrow> 'a list \<Rightarrow> int" where
  "str_indexOf [] pat = (if pat = [] then 0 else - 1)"
| "str_indexOf (x # xs) pat =
     (if prefix pat (x # xs) then 0
      else (let i = str_indexOf xs pat in if i < 0 then - 1 else i + 1))"

text \<open>
  \<open>s.slice(start, end)\<close>: a negative index counts from the end of the string, both
  indices are clamped to \<open>0 .. s.length\<close>, and an empty span gives the empty string.
  \<open>s.slice(start)\<close> is \<open>s.slice(start, s.length)\<close>.
\<close>

definition str_slice :: "'a list \<Rightarrow> int \<Rightarrow> int \<Rightarrow> 'a list" where
  "str_slice s start end =
     (let len = int (length s);
          from = (if start < 0 then max (len + start) 0 else min start len);
          to = (if end < 0 then max (len + end) 0 else min end len)
      in take (nat (to - from)) (drop (nat from) s))"

definition str_slice_from :: "'a list \<Rightarrow> int \<Rightarrow> 'a list" where
  "str_slice_from s start = str_slice s start (int (length s))"

text \<open>
  \<open>s.trim()\<close> removes white space and line terminators from both ends. An answer to
  the prompt is a \<open>string\<close>, one \<open>char\<close> for each code unit up to U+00FF; among these
  the white space is TAB, LF, VT, FF, CR, SPACE and NO-BREAK SPACE.
\<close>

definition is_whitespace :: "char \<Rightarrow> bool" where
  "is_whitespace c = (of_char c \<in> {9, 10, 11, 12, 13, 32, 160 :: nat})"

definition str_trim :: "string \<Rightarrow> string" where
  "str_trim s = rev (dropWhile is_whitespace (rev (dropWhile is_whitespace s)))"

text \<open>
  The number of positions at which \<open>pat\<close> occurs in \<open>s\<close> (overlapping occurrences
  counted). The program never computes it; the properties of the template patcher and
  of the ignore files are stated with it.
\<close>

fun occurrences :: "'a list \<Rightarrow> 'a list \<Rightarrow> nat" where
  "occurrences [] pat = (if pat = [] then 1 else 0)"
| "occurrences (x # xs) pat = (if prefix pat (x # xs) then 1 else 0) + occurrences xs pat"


section \<open>JSON values as the manifest code sees them\<close>

text \<open>
  \<open>package.json\<close> is read with \<open>JSON.parse\<close> and written with \<open>JSON.stringify\<close>. A
  parsed value is a \<open>json\<close>; an object is the list of its own properties in
  enumeration order. A number is what \<open>JSON.parse\<close> makes of a number literal: a
  finite value, negative zero (from \<open>-0\<close>), or an infinity (from a literal too large
  for a double, such as \<open>1e999\<close>). \<open>undefined\<close> is \<open>None\<close> of \<open>json option\<close>.
\<close>

datatype number = Finite rat | Negative_zero | Infinity | Negative_infinity

datatype json =
    JNull
  | JBool bool
  | JNum number
  | JStr string
  | JArr "json list"
  | JObj "(string \<times> json) list"

text \<open>Truthiness, as \<open>!v\<close> and \<open>v || w\<close> test it.\<close>

fun truthy :: "json option \<Rightarrow> bool" where
  "truthy None = False"
| "truthy (Some JNull) = False"
| "truthy (Some (JBool b)) = b"
| "truthy (Some (JNum n)) =
     (case n of
        Finite r \<Rightarrow> r \<noteq> 0
      | Negative_zero \<Rightarrow> False
      | Infinity \<Rightarrow> True
      | Negative_infinity \<Rightarrow> True)"
| "truthy (Some (JStr s)) = (s \<noteq> [])"
| "truthy (Some (JArr _)) = True"
| "truthy (Some (JObj _)) = True"

text \<open>
  \<open>v.k\<close> for a value \<open>v\<close> other than \<open>null\<close> and a key \<open>k\<close> that no prototype
  defines (\<open>scripts\<close>, \<open>tailwind\<close>): an own property of an object, \<open>undefined\<close> on an
  array, a string, a number or a boolean. Reading a property of \<open>null\<close> throws; the
  caller checks for \<open>null\<close> before it uses \<open>get_prop\<close>.
\<close>

fun get_prop :: "json \<Rightarrow> string \<Rightarrow> json option" where
  "get_prop (JObj kvs) k = map_of kvs k"
| "get_prop _ k = None"

text \<open>
  \<open>v.k = w\<close> as \<open>JSON.stringify\<close> sees it afterwards: an object gets or replaces the
  property (a new key goes to the end); on an array the property is set but is not
  serialised; on a string, a number or a boolean the assignment is silently dropped
  (the scripts are CommonJS modules in sloppy mode).
\<close>

fun set_prop :: "json \<Rightarrow> string \<Rightarrow> json \<Rightarrow> json" where
  "set_prop (JObj kvs) k w = JObj (AList.update k w kvs)"
| "set_prop v k w = v"

text \<open>
  \<open>JSON.parse(JSON.stringify(v))\<close>: what a later read finds after \<open>v\<close> has been
  written. \<open>JSON.stringify\<close> writes an infinity as \<open>null\<close> and negative zero as \<open>0\<close>,
  at any depth; every other value comes back as it was.
\<close>

primrec stringify_parse :: "json \<Rightarrow> json" where
  "stringify_parse JNull = JNull"
| "stringify_parse (JBool b) = JBool b"
| "stringify_parse (JNum n) =
     (case n of
        Finite r \<Rightarrow> JNum (Finite r)
      | Negative_zero \<Rightarrow> JNum (Finite 0)
      | Infinity \<Rightarrow> JNull
      | Negative_infinity \<Rightarrow> JNull)"
| "stringify_parse (JStr s) = JStr s"
| "stringify_parse (JArr xs) = JArr (map stringify_parse xs)"
| "stringify_parse (JObj kvs) = JObj (map (map_prod id stringify_parse) kvs)"

fun is_primitive :: "json \<Rightarrow> bool" where
  "is_primitive (JBool _) = True"
| "is_primitive (JNum _) = True"
| "is_primitive (JStr _) = True"
| "is_primitive _ = False"


section \<open>The project directory, the environment and results\<close>

text \<open>
  The files the installer touches, each absent (\<open>None\<close>) or a regular file with its
  content. \<open>package.json\<close> is held as what \<open>JSON.parse\<close> makes of its text:
  \<open>Malformed\<close> when the parse throws, the parsed value otherwise. The template is held
  as the text a read returns.
\<close>

datatype manifest = Malformed | Parsed json

record project =
  theme_liquid :: "utf16 option"
  package_json :: "manifest option"
  tailwind_config_js :: "string option"
  tailwind_config_css :: "string option"
  gitignore :: "string option"
  shopifyignore :: "string option"

text \<open>
  What the program asks of its surroundings: \<open>shell.which\<close>, and \<open>shell.exec\<close>, which
  runs a command line of the package manager. The command is opaque: it yields an
  exit code and leaves the directory in some state.
\<close>

record environment =
  which :: "string \<Rightarrow> bool"
  exec :: "string \<Rightarrow> project \<Rightarrow> nat \<times> project"

text \<open>One constructor for each message the scripts echo.\<close>

datatype message =
    Node_missing | Not_shopify | Initialising_npm | Npm_init_failed
  | Installing | Install_failed | Generating_config | Config_created
  | Styles_created | Styles_exist | Script_added | Script_exists
  | Link_added | Link_exists | Theme_not_found
  | Gitignore_creating | Gitignore_created | Gitignore_exists
  | Gitignore_updating | Gitignore_updated
  | Shopifyignore_creating | Shopifyignore_created | Shopifyignore_exists
  | Shopifyignore_updating | Shopifyignore_updated
  | Success | How_to_build | Include_hint

datatype event =
    Echo message
  | Exec string
  | WriteFile string
  | AppendFile string

datatype exn = SyntaxError | TypeError | ENOENT

text \<open>
  How a piece of the script ends: it returns, it calls \<open>shell.exit\<close>, or an exception
  escapes. With the status come the directory as it is then and the events so far.
\<close>

datatype status = Returned | Exited nat | Threw exn

type_synonym result = "status \<times> project \<times> event list"

definition status_of :: "result \<Rightarrow> status" where
  "status_of r = fst r"

definition project_of :: "result \<Rightarrow> project" where
  "project_of r = fst (snd r)"

definition events_of :: "result \<Rightarrow> event list" where
  "events_of r = snd (snd r)"

text \<open>Statements in sequence: the next one runs only if the one before returned.\<close>

fun in_sequence :: "(project \<Rightarrow> result) list \<Rightarrow> project \<Rightarrow> result" where
  "in_sequence [] p = (Returned, p, [])"
| "in_sequence (f # fs) p =
     (case f p of
        (Returned, p', t) \<Rightarrow>
          (case in_sequence fs p' of (st, p'', t') \<Rightarrow> (st, p'', t @ t'))
      | (Exited n, p', t) \<Rightarrow> (Exited n, p', t)
      | (Threw e, p', t) \<Rightarrow> (Threw e, p', t))"


section \<open>The template patcher\<close>

definition linkFragment :: utf16 where
  \<open>linkFragment = text_of ''{{ 'tailwind.css' | asset_url | stylesheet_tag }}''\<close>

definition headEnd :: utf16 where
  \<open>headEnd = text_of ''</head>''\<close>

text \<open>The template literal \<open>linkTag\<close> of \<open>index.js\<close> (lines 22 to 24).\<close>

definition linkTag_index :: utf16 where
  \<open>linkTag_index =
     text_of ''\<newline>  "{{ 'tailwind.css' | asset_url | stylesheet_tag }}"\<newline>      ''\<close>

text \<open>The template literal \<open>linkTag\<close> of the second script (lines 22 to 24).\<close>

definition linkTag_v3 :: utf16 where
  \<open>linkTag_v3 =
     text_of ''\<newline>        {{ 'tailwind.css' | asset_url | stylesheet_tag }}\<newline>      ''\<close>

definition isShopifyProject :: "project \<Rightarrow> bool" where
  "isShopifyProject p = (theme_liquid p \<noteq> None)"

text \<open>
  \<open>addTailwindToThemeLiquid\<close>; the two scripts differ in \<open>linkTag\<close> only, which is the
  first argument here. The file then holds the new string as \<open>writeFileSync\<close> encodes
  it.
\<close>

definition addTailwindToThemeLiquid :: "utf16 \<Rightarrow> project \<Rightarrow> result" where
  "addTailwindToThemeLiquid linkTag p =
     (case theme_liquid p of
        Some themeLiquid \<Rightarrow>
          if \<not> str_includes themeLiquid linkFragment then
            (let headEndIndex = str_indexOf themeLiquid headEnd;
                 themeLiquid' = str_slice themeLiquid 0 headEndIndex @ linkTag
                                @ str_slice_from themeLiquid headEndIndex
             in (Returned, p\<lparr>theme_liquid := Some (toWellFormed themeLiquid')\<rparr>,
                 [WriteFile ''layout/theme.liquid'', Echo Link_added]))
          else (Returned, p, [Echo Link_exists])
      | None \<Rightarrow> (Returned, p, [Echo Theme_not_found]))"

definition addTailwindToThemeLiquid_index :: "project \<Rightarrow> result" where
  "addTailwindToThemeLiquid_index = addTailwindToThemeLiquid linkTag_index"

definition addTailwindToThemeLiquid_v3 :: "project \<Rightarrow> result" where
  "addTailwindToThemeLiquid_v3 = addTailwindToThemeLiquid linkTag_v3"


section \<open>The ignore files\<close>

text \<open>
  The template literal that \<open>createGitIgnore\<close> writes and appends (the same text at
  lines 45 to 51 and 69 to 75 of the second script).
\<close>

definition gitIgnoreBlock :: string where
  \<open>gitIgnoreBlock =
       ''\<newline>'' @
       ''.DS_Store\<newline>'' @
       ''node_modules\<newline>'' @
       ''package-lock.json\<newline>'' @
       ''.env\<newline>'' @
       ''/.idea\<newline>'' @
       ''      ''\<close>

definition gitIgnoreLines :: "string list" where
  "gitIgnoreLines = [''.DS_Store'', ''node_modules'', ''package-lock.json'', ''.env'', ''/.idea'']"

definition createGitIgnore :: "project \<Rightarrow> result" where
  "createGitIgnore p =
     (let (p1, t1) =
            (if gitignore p = None
             then (p\<lparr>gitignore := Some gitIgnoreBlock\<rparr>,
                   [Echo Gitignore_creating, WriteFile ''.gitignore'', Echo Gitignore_created])
             else (p, [Echo Gitignore_exists]))
      in case gitignore p1 of
           None \<Rightarrow> (Threw ENOENT, p1, t1)
         | Some gitIgnoreContent \<Rightarrow>
             if \<not> str_includes gitIgnoreContent ''.DS_Store'' \<or>
                \<not> str_includes gitIgnoreContent ''node_modules'' \<or>
                \<not> str_includes gitIgnoreContent ''package-lock.json'' \<or>
                \<not> str_includes gitIgnoreContent ''.env'' \<or>
                \<not> str_includes gitIgnoreContent ''/.idea''
             then (Returned, p1\<lparr>gitignore := Some (gitIgnoreContent @ gitIgnoreBlock)\<rparr>,
                   t1 @ [Echo Gitignore_updating, AppendFile ''.gitignore'', Echo Gitignore_updated])
             else (Returned, p1, t1))"

text \<open>The template literal of \<open>createShopifyIgnore\<close> (lines 87 to 93 and 111 to 117).\<close>

definition shopifyIgnoreBlock :: string where
  \<open>shopifyIgnoreBlock =
       ''\<newline>'' @
       ''package.json\<newline>'' @
       ''package-lock.json\<newline>'' @
       ''tailwind.config.js\<newline>'' @
       ''tailwind-config.css\<newline>'' @
       ''html-ref.html\<newline>'' @
       ''      ''\<close>

definition shopifyIgnoreLines :: "string list" where
  "shopifyIgnoreLines =
     [''package.json'', ''package-lock.json'', ''tailwind.config.js'', ''tailwind-config.css'',
      ''html-ref.html'']"

definition createShopifyIgnore :: "project \<Rightarrow> result" where
  "createShopifyIgnore p =
     (let (p1, t1) =
            (if shopifyignore p = None
             then (p\<lparr>shopifyignore := Some shopifyIgnoreBlock\<rparr>,
                   [Echo Shopifyignore_creating, WriteFile ''.shopifyignore'',
                    Echo Shopifyignore_created])
             else (p, [Echo Shopifyignore_exists]))
      in case shopifyignore p1 of
           None \<Rightarrow> (Threw ENOENT, p1, t1)
         | Some shopifyIgnoreContent \<Rightarrow>
             if \<not> str_includes shopifyIgnoreContent ''package.json'' \<or>
                \<not> str_includes shopifyIgnoreContent ''package-lock.json'' \<or>
                \<not> str_includes shopifyIgnoreContent ''tailwind.config.js'' \<or>
                \<not> str_includes shopifyIgnoreContent ''tailwind-config.css'' \<or>
                \<not> str_includes shopifyIgnoreContent ''html-ref.html''
             then (Returned,
                   p1\<lparr>shopifyignore := Some (shopifyIgnoreContent @ shopifyIgnoreBlock)\<rparr>,
                   t1 @ [Echo Shopifyignore_updating, AppendFile ''.shopifyignore'',
                         Echo Shopifyignore_updated])
             else (Returned, p1, t1))"


section \<open>The install\<close>

text \<open>
  \<open>installTailwindCSS\<close> is one function in each script. Its blocks are named here after
  the comments that head them in the source and run in sequence; a block that calls
  \<open>shell.exit(1)\<close> ends the run.
\<close>

definition checkNode :: "environment \<Rightarrow> project \<Rightarrow> result" where
  "checkNode env p =
     (if \<not> which env ''node'' then (Exited 1, p, [Echo Node_missing])
      else (Returned, p, []))"

definition checkShopifyProject :: "project \<Rightarrow> result" where
  "checkShopifyProject p =
     (if \<not> isShopifyProject p then (Exited 1, p, [Echo Not_shopify])
      else (Returned, p, []))"

definition initialiseNpm :: "environment \<Rightarrow> project \<Rightarrow> result" where
  "initialiseNpm env p =
     (if package_json p = None then
        (case exec env ''npm init -y'' p of
           (code, p') \<Rightarrow>
             if code \<noteq> 0
             then (Exited 1, p', [Echo Initialising_npm, Exec ''npm init -y'', Echo Npm_init_failed])
             else (Returned, p', [Echo Initialising_npm, Exec ''npm init -y'']))
      else (Returned, p, []))"

definition installDependencies :: "environment \<Rightarrow> string \<Rightarrow> project \<Rightarrow> result" where
  "installDependencies env command p =
     (case exec env command p of
        (code, p') \<Rightarrow>
          if code \<noteq> 0
          then (Exited 1, p', [Echo Installing, Exec command, Echo Install_failed])
          else (Returned, p', [Echo Installing, Exec command]))"

definition customConfig :: string where
  \<open>customConfig =
       ''\<newline>'' @
       ''/** @type {import('tailwindcss').Config} */\<newline>'' @
       ''module.exports = {\<newline>'' @
       ''  content: [\<newline>'' @
       ''    "*.html",\<newline>'' @
       ''    "./layout/*.liquid",\<newline>'' @
       ''    "./sections/*.liquid",\<newline>'' @
       ''    "./snippets/*.liquid",\<newline>'' @
       ''    "./assets/*.js",\<newline>'' @
       ''    "./tailwind-config.css",\<newline>'' @
       ''  ],\<newline>'' @
       ''  theme: {\<newline>'' @
       ''    screens: {\<newline>'' @
       ''      sm: "550px",\<newline>'' @
       ''      md: "750px",\<newline>'' @
       ''      lg: "990px",\<newline>'' @
       ''    },\<newline>'' @
       ''  },\<newline>'' @
       ''  corePlugins: {\<newline>'' @
       ''    preflight: false,\<newline>'' @
       ''  },\<newline>'' @
       ''  prefix: "tw-",\<newline>'' @
       ''};\<newline>'' @
       ''  ''\<close>

definition generateConfig :: "project \<Rightarrow> result" where
  "generateConfig p =
     (Returned, p\<lparr>tailwind_config_js := Some customConfig\<rparr>,
      [Echo Generating_config, WriteFile ''tailwind.config.js'', Echo Config_created])"

definition stylesTemplate :: string where
  \<open>stylesTemplate =
       ''\<newline>'' @
       ''@tailwind base;\<newline>'' @
       ''@tailwind components;\<newline>'' @
       ''@tailwind utilities;\<newline>'' @
       ''    ''\<close>

definition createStyles :: "project \<Rightarrow> result" where
  "createStyles p =
     (if tailwind_config_css p = None
      then (Returned, p\<lparr>tailwind_config_css := Some stylesTemplate\<rparr>,
            [WriteFile ''tailwind-config.css'', Echo Styles_created])
      else (Returned, p, [Echo Styles_exist]))"

definition buildCommand :: string where
  "buildCommand = ''npx tailwindcss -i ./tailwind-config.css -o ./assets/tailwind.css --watch''"

text \<open>
  ``Add build script to package.json if not present''. \<open>readFileSync\<close> throws when
  the file is absent, \<open>JSON.parse\<close> when its text is not JSON, and the property reads
  throw on \<open>null\<close>. On a top-level string, number or boolean the assignment to
  \<open>packageJson.scripts\<close> is dropped, so the assignment to
  \<open>packageJson.scripts.tailwind\<close> that follows it throws. The file then holds what
  \<open>JSON.stringify\<close> makes of the object.
\<close>

definition addBuildScript :: "project \<Rightarrow> result" where
  "addBuildScript p =
     (case package_json p of
        None \<Rightarrow> (Threw ENOENT, p, [])
      | Some Malformed \<Rightarrow> (Threw SyntaxError, p, [])
      | Some (Parsed packageJson) \<Rightarrow>
          if packageJson = JNull then (Threw TypeError, p, [])
          else
            (let scripts = get_prop packageJson ''scripts'' in
             if \<not> truthy scripts \<or>
                \<not> truthy (case scripts of None \<Rightarrow> None | Some s \<Rightarrow> get_prop s ''tailwind'')
             then
               if is_primitive packageJson then (Threw TypeError, p, [])
               else
                 (let scripts' = (case scripts of
                                    None \<Rightarrow> JObj []
                                  | Some s \<Rightarrow> if truthy (Some s) then s else JObj []);
                      packageJson' =
                        set_prop packageJson ''scripts''
                          (set_prop scripts' ''tailwind'' (JStr buildCommand))
                  in (Returned,
                      p\<lparr>package_json := Some (Parsed (stringify_parse packageJson'))\<rparr>,
                      [WriteFile ''package.json'', Echo Script_added]))
             else (Returned, p, [Echo Script_exists])))"

definition announce :: "project \<Rightarrow> result" where
  "announce p = (Returned, p, [Echo Success, Echo How_to_build, Echo Include_hint])"

text \<open>\<open>installTailwindCSS\<close> of \<open>index.js\<close>.\<close>

definition installTailwindCSS_index :: "environment \<Rightarrow> project \<Rightarrow> result" where
  "installTailwindCSS_index env =
     in_sequence
       [checkNode env,
        checkShopifyProject,
        initialiseNpm env,
        installDependencies env ''npm install -D tailwindcss postcss autoprefixer'',
        generateConfig,
        createStyles,
        addBuildScript,
        addTailwindToThemeLiquid_index,
        announce]"

text \<open>\<open>installTailwindCSS\<close> of the second script, which pins the version and adds the
  two ignore files.\<close>

definition installTailwindCSS_v3 :: "environment \<Rightarrow> project \<Rightarrow> result" where
  "installTailwindCSS_v3 env =
     in_sequence
       [checkNode env,
        checkShopifyProject,
        initialiseNpm env,
        installDependencies env ''npm install -D tailwindcss@3.4.15 postcss autoprefixer'',
        generateConfig,
        createStyles,
        addBuildScript,
        addTailwindToThemeLiquid_v3,
        createGitIgnore,
        createShopifyIgnore,
        announce]"

text \<open>The \<open>tailwind\<close> entry of the manifest's scripts table, \<open>undefined\<close> when there is
  none.\<close>

definition tailwind_script :: "project \<Rightarrow> json option" where
  "tailwind_script p =
     (case package_json p of
        Some (Parsed m) \<Rightarrow>
          (case get_prop m ''scripts'' of None \<Rightarrow> None | Some s \<Rightarrow> get_prop s ''tailwind'')
      | _ \<Rightarrow> None)"

text \<open>The \<open>scripts\<close> property of a manifest that is a JSON object.\<close>

definition manifest_scripts :: "project \<Rightarrow> json option option" where
  "manifest_scripts p =
     (case package_json p of
        Some (Parsed (JObj kvs)) \<Rightarrow> Some (map_of kvs ''scripts'')
      | _ \<Rightarrow> None)"

text \<open>
  The install command of \<open>index.js\<close>, and the directory as the package manager
  leaves it in a run that gets past its commands: \<open>npm init -y\<close> when there is no
  manifest, then the install command. A theorem about a run says what it needs of
  this one directory.
\<close>

definition installCommand_index :: string where
  "installCommand_index = ''npm install -D tailwindcss postcss autoprefixer''"

definition after_commands :: "environment \<Rightarrow> string \<Rightarrow> project \<Rightarrow> project" where
  "after_commands env command p =
     snd (exec env command
            (if package_json p = None then snd (exec env ''npm init -y'' p) else p))"


text \<open>A manifest on which the build-script block has nothing left to change.\<close>

fun settled :: "json \<Rightarrow> bool" where
  "settled (JArr _) = True"
| "settled (JObj kvs) =
     (case map_of kvs ''scripts'' of
        Some (JObj scripts) \<Rightarrow> truthy (map_of scripts ''tailwind'')
      | s \<Rightarrow> truthy s)"
| "settled _ = False"


section \<open>The version prompt of the interactive script\<close>

text \<open>
  \<open>promptForVersion\<close> asks, and asks again on every answer that does not trim to
  \<open>3\<close> or \<open>4\<close>. The argument is the list of answers that arrive on standard input.
  When they run out the question stays open and the promise is never resolved: the
  result is \<open>None\<close>. What an endless input does is fixed by its finite prefixes.
\<close>

datatype prompt_event = Question | Invalid_version

fun promptForVersion :: "string list \<Rightarrow> string option \<times> prompt_event list" where
  "promptForVersion [] = (None, [Question])"
| "promptForVersion (answer # rest) =
     (let version = str_trim answer in
      if version = ''3'' \<or> version = ''4'' then (Some version, [Question])
      else (case promptForVersion rest of (r, t) \<Rightarrow> (r, Question # Invalid_version # t)))"

definition accepted :: "string \<Rightarrow> bool" where
  "accepted answer \<longleftrightarrow> str_trim answer = ''3'' \<or> str_trim answer = ''4''"


section \<open>Sample directories and environments\<close>

definition theme_only :: "utf16 \<Rightarrow> project" where
  "theme_only s =
     \<lparr>theme_liquid = Some s, package_json = None, tailwind_config_js = None,
      tailwind_config_css = None, gitignore = None, shopifyignore = None\<rparr>"

definition plain_theme :: utf16 where
  \<open>plain_theme = text_of ''<head></head>''\<close>

definition linked_theme :: utf16 where
  \<open>linked_theme = text_of ''<head>{{ 'tailwind.css' | asset_url | stylesheet_tag }}</head>''\<close>

definition headless_theme :: utf16 where
  \<open>headless_theme = text_of ''<body></body>''\<close>

text \<open>A template without \<open></head>\<close> whose last character is U+1F600, the surrogate pair
  \<open>D83D DE00\<close>.\<close>

definition emoji_theme :: utf16 where
  \<open>emoji_theme = text_of ''<body>'' @ [0xD83D, 0xDE00]\<close>

definition ignoring_project :: project where
  "ignoring_project =
     \<lparr>theme_liquid = Some plain_theme, package_json = None, tailwind_config_js = None,
      tailwind_config_css = None, gitignore = Some gitIgnoreBlock,
      shopifyignore = Some shopifyIgnoreBlock\<rparr>"

definition partial_gitignore :: string where
  \<open>partial_gitignore = ''node_modules\<newline>.DS_Store\<newline>.env\<newline>/.idea\<newline>''\<close>

definition partial_shopifyignore :: string where
  \<open>partial_shopifyignore =
     ''package.json\<newline>package-lock.json\<newline>tailwind.config.js\<newline>tailwind-config.css\<newline>''\<close>

definition partial_project :: project where
  "partial_project =
     \<lparr>theme_liquid = Some plain_theme, package_json = None, tailwind_config_js = None,
      tailwind_config_css = None, gitignore = Some partial_gitignore,
      shopifyignore = Some partial_shopifyignore\<rparr>"

definition empty_directory :: project where
  "empty_directory =
     \<lparr>theme_liquid = None, package_json = None, tailwind_config_js = None,
      tailwind_config_css = None, gitignore = None, shopifyignore = None\<rparr>"

text \<open>A package manager whose \<open>init\<close> writes a small manifest and whose other commands
  succeed without touching the directory.\<close>

definition fresh_manifest :: json where
  "fresh_manifest =
     JObj [(''name'', JStr ''theme''), (''scripts'', JObj [(''test'', JStr ''exit 1'')])]"

definition npm_exec :: "string \<Rightarrow> project \<Rightarrow> nat \<times> project" where
  "npm_exec command p =
     (if command = ''npm init -y'' then (0, p\<lparr>package_json := Some (Parsed fresh_manifest)\<rparr>)
      else (0, p))"

definition idle_exec :: "string \<Rightarrow> project \<Rightarrow> nat \<times> project" where
  "idle_exec command p = (0, p)"

definition node_present :: "string \<Rightarrow> bool" where
  "node_present name = True"

definition npm_env :: environment where
  "npm_env = \<lparr>which = node_present, exec = npm_exec\<rparr>"

definition idle_env :: environment where
  "idle_env = \<lparr>which = node_present, exec = idle_exec\<rparr>"




definition doubled_theme :: utf16 where
  "doubled_theme = text_of ''<head>'' @ linkFragment @ linkFragment @ text_of ''</head>''"

text \<open>The directory after one install with the sample package manager, and after a second
  install on top of it.\<close>

definition once_installed :: "utf16 \<Rightarrow> project" where
  "once_installed s = project_of (installTailwindCSS_index npm_env (theme_only s))"

definition twice_installed :: "utf16 \<Rightarrow> project" where
  "twice_installed s = project_of (installTailwindCSS_index idle_env (once_installed s))"

definition built_manifest :: json where
  "built_manifest =
     JObj [(''name'', JStr ''theme''),
           (''scripts'', JObj [(''test'', JStr ''exit 1''), (''tailwind'', JStr buildCommand)])]"

definition installed :: "utf16 \<Rightarrow> project" where
  "installed s =
     \<lparr>theme_liquid = Some s, package_json = Some (Parsed built_manifest),
      tailwind_config_js = Some customConfig, tailwind_config_css = Some stylesTemplate,
      gitignore = None, shopifyignore = None\<rparr>"


text \<open>A manifest whose \<open>scripts\<close> is a string, in a directory that is otherwise as an
  install leaves it.\<close>

definition odd_manifest :: json where
  "odd_manifest = JObj [(''name'', JStr ''theme''), (''scripts'', JStr ''none'')]"

definition odd_project :: project where
  "odd_project =
     \<lparr>theme_liquid = Some linked_theme, package_json = Some (Parsed odd_manifest),
      tailwind_config_js = Some customConfig, tailwind_config_css = Some stylesTemplate,
      gitignore = None, shopifyignore = None\<rparr>"

text \<open>A manifest whose \<open>scripts\<close> is the number literal \<open>1e999\<close>, and what a write makes
  of it.\<close>

definition infinite_manifest :: json where
  "infinite_manifest = JObj [(''name'', JStr ''theme''), (''scripts'', JNum Infinity)]"

definition null_manifest :: json where
  "null_manifest = JObj [(''name'', JStr ''theme''), (''scripts'', JNull)]"

definition scripted_manifest :: json where
  "scripted_manifest =
     JObj [(''name'', JStr ''theme''), (''scripts'', JObj [(''tailwind'', JStr buildCommand)])]"

definition manifest_project :: "json \<Rightarrow> project" where
  "manifest_project m =
     \<lparr>theme_liquid = Some linked_theme, package_json = Some (Parsed m),
      tailwind_config_js = Some customConfig, tailwind_config_css = Some stylesTemplate,
      gitignore = None, shopifyignore = None\<rparr>"


section \<open>Facts about the string methods\<close>

lemma str_includes_sublist: "str_includes s pat \<longleftrightarrow> sublist pat s"
  by (induction s) (auto simp: sublist_Cons_right)

lemma occurrences_zero_iff: "occurrences s pat = 0 \<longleftrightarrow> \<not> str_includes s pat"
  by (induction s) auto

lemma prefix_barrier:
  assumes "c \<notin> set pat"
  shows "prefix pat (zs @ c # ys) \<longleftrightarrow> prefix pat zs"
proof
  assume "prefix pat (zs @ c # ys)"
  then consider "prefix pat zs" | us where "pat = zs @ us" "prefix us (c # ys)"
    by (auto simp: prefix_append)
  then show "prefix pat zs"
  proof cases
    case 1 then show ?thesis .
  next
    case 2
    with assms show ?thesis by (cases us) auto
  qed
next
  assume "prefix pat zs"
  then show "prefix pat (zs @ c # ys)" by (rule prefix_prefix)
qed

lemma occurrences_barrier:
  assumes "c \<notin> set pat" and "pat \<noteq> []"
  shows "occurrences (xs @ c # ys) pat = occurrences xs pat + occurrences ys pat"
proof (induction xs)
  case Nil
  from assms have "\<not> prefix pat (c # ys)" by (cases pat) auto
  with assms show ?case by simp
next
  case (Cons x xs)
  have "prefix pat (x # xs @ c # ys) \<longleftrightarrow> prefix pat (x # xs)"
    using prefix_barrier [OF assms(1), of "x # xs" ys] by simp
  with Cons show ?case by simp
qed

lemma occurrences_append_ge:
  assumes "pat \<noteq> []"
  shows "occurrences xs pat + occurrences ys pat \<le> occurrences (xs @ ys) pat"
proof (induction xs)
  case Nil
  with assms show ?case by simp
next
  case (Cons x xs)
  have "prefix pat (x # xs) \<Longrightarrow> prefix pat (x # xs @ ys)"
    using prefix_prefix [of pat "x # xs" ys] by simp
  with Cons show ?case by auto
qed

lemma slice_split: "str_slice s 0 i @ str_slice_from s i = s"
  by (auto simp: str_slice_def str_slice_from_def Let_def min_def max_def)

lemma slice_upto: "0 \<le> i \<Longrightarrow> str_slice s 0 i = take (nat i) s"
  by (auto simp: str_slice_def Let_def min_def max_def)

lemma slice_from: "0 \<le> i \<Longrightarrow> str_slice_from s i = drop (nat i) s"
  by (auto simp: str_slice_def str_slice_from_def Let_def min_def max_def)

lemma slice_minus_one: "str_slice s 0 (- 1) = butlast s"
  by (auto simp: str_slice_def Let_def min_def max_def butlast_conv_take nat_diff_distrib')

lemma slice_from_minus_one: "str_slice_from s (- 1) = (if s = [] then [] else [last s])"
  by (cases s rule: rev_cases) (auto simp: str_slice_def str_slice_from_def Let_def)

lemma str_indexOf_absent: "\<not> str_includes s pat \<Longrightarrow> str_indexOf s pat = - 1"
  by (induction s) (auto simp: Let_def)

lemma str_indexOf_present:
  "str_includes s pat \<Longrightarrow>
   \<exists>pre post. s = pre @ pat @ post \<and> str_indexOf s pat = int (length pre)
      \<and> (\<forall>j < length pre. \<not> prefix pat (drop j s))"
proof (induction s)
  case Nil
  then show ?case by simp
next
  case (Cons x xs)
  show ?case
  proof (cases "prefix pat (x # xs)")
    case True
    then obtain post where "x # xs = pat @ post" by (auto simp: prefix_def)
    moreover from True have "str_indexOf (x # xs) pat = int (length ([] :: 'a list))"
      by simp
    moreover have "\<forall>j < length ([] :: 'a list). \<not> prefix pat (drop j (x # xs))"
      by simp
    ultimately show ?thesis by (metis append_Nil)
  next
    case False
    with Cons.prems have "str_includes xs pat" by simp
    from Cons.IH [OF this] obtain pre post where
      xs: "xs = pre @ pat @ post" and idx: "str_indexOf xs pat = int (length pre)"
      and first: "\<forall>j < length pre. \<not> prefix pat (drop j xs)" by blast
    have "\<forall>j < length (x # pre). \<not> prefix pat (drop j (x # xs))"
    proof (intro allI impI)
      fix j assume "j < length (x # pre)"
      then show "\<not> prefix pat (drop j (x # xs))"
        using False first by (cases j) auto
    qed
    moreover have "str_indexOf (x # xs) pat = int (length (x # pre))"
      using False idx by (simp add: Let_def)
    moreover have "x # xs = (x # pre) @ pat @ post" using xs by simp
    ultimately show ?thesis by blast
  qed
qed


lemma length_toWellFormed: "length (toWellFormed s) = length s"
  by (induction s rule: toWellFormed.induct) auto

lemma map_masked_toWellFormed: "map masked (toWellFormed s) = map masked s"
  by (induction s rule: toWellFormed.induct) (auto simp: masked_def is_high_def is_low_def)

lemma prefix_masked:
  assumes "is_ascii pat"
  shows "prefix pat (map masked xs) \<longleftrightarrow> prefix pat xs"
  using assms
proof (induction pat arbitrary: xs)
  case Nil
  then show ?case by simp
next
  case (Cons a pat)
  then have a: "a < 128" and pat: "is_ascii pat" by (simp_all add: is_ascii_def)
  show ?case
  proof (cases xs)
    case Nil
    then show ?thesis by simp
  next
    case (Cons x xs')
    from a have "a = masked x \<longleftrightarrow> a = x"
      by (auto simp: masked_def is_high_def is_low_def)
    with Cons Cons.IH [OF pat, of xs'] show ?thesis by auto
  qed
qed

lemma occurrences_masked:
  assumes "is_ascii pat"
  shows "occurrences (map masked xs) pat = occurrences xs pat"
proof (induction xs)
  case Nil
  then show ?case by simp
next
  case (Cons x xs)
  from prefix_masked [OF assms, of "x # xs"]
  have "prefix pat (masked x # map masked xs) \<longleftrightarrow> prefix pat (x # xs)" by simp
  with Cons show ?case by simp
qed

lemma occurrences_toWellFormed:
  assumes "is_ascii pat"
  shows "occurrences (toWellFormed s) pat = occurrences s pat"
  using occurrences_masked [OF assms, of "toWellFormed s"] occurrences_masked [OF assms, of s]
  by (simp add: map_masked_toWellFormed)

lemma str_includes_toWellFormed:
  assumes "is_ascii pat"
  shows "str_includes (toWellFormed s) pat \<longleftrightarrow> str_includes s pat"
  using occurrences_toWellFormed [OF assms, of s]
    occurrences_zero_iff [of s pat] occurrences_zero_iff [of "toWellFormed s" pat]
  by simp

lemma toWellFormed_plain_Cons:
  assumes "\<not> is_high a" and "\<not> is_low a"
  shows "toWellFormed (a # ys) = a # toWellFormed ys"
  using assms by (cases ys) auto

lemma toWellFormed_plain_unit:
  assumes "\<not> is_high a" and "\<not> is_low a"
  shows "toWellFormed (xs @ a # ys) = toWellFormed xs @ a # toWellFormed ys"
proof (induction xs rule: toWellFormed.induct)
  case 1
  from assms show ?case by (simp add: toWellFormed_plain_Cons)
next
  case (2 u)
  from assms show ?case by (simp add: toWellFormed_plain_Cons)
next
  case (3 u v r)
  then show ?case by auto
qed

lemma ascii_plain: "u < 128 \<Longrightarrow> \<not> is_high u \<and> \<not> is_low u"
  by (simp add: is_high_def is_low_def)

lemma toWellFormed_ascii_block:
  assumes "is_ascii t" and "t \<noteq> []"
  shows "toWellFormed (xs @ t @ ys) = toWellFormed xs @ t @ toWellFormed ys"
  using assms
proof (induction t arbitrary: xs)
  case Nil
  then show ?case by simp
next
  case (Cons a t)
  then have a: "\<not> is_high a" "\<not> is_low a" and t: "is_ascii t"
    by (simp_all add: is_ascii_def ascii_plain)
  show ?case
  proof (cases "t = []")
    case True
    with a show ?thesis by (simp add: toWellFormed_plain_unit)
  next
    case False
    from Cons.IH [OF t False, of "[]"] have "toWellFormed (t @ ys) = t @ toWellFormed ys"
      by simp
    with a show ?thesis by (simp add: toWellFormed_plain_unit)
  qed
qed

lemma toWellFormed_ascii: "is_ascii t \<Longrightarrow> toWellFormed t = t"
  using toWellFormed_ascii_block [of t "[]" "[]"] by (cases "t = []") simp_all

lemma isWellFormed_around_block:
  assumes "isWellFormed (xs @ t @ ys)" and "is_ascii t" and "t \<noteq> []"
  shows "toWellFormed xs = xs" and "toWellFormed ys = ys"
proof -
  from assms have "toWellFormed xs @ t @ toWellFormed ys = xs @ t @ ys"
    by (simp add: isWellFormed_def toWellFormed_ascii_block)
  then show "toWellFormed xs = xs" and "toWellFormed ys = ys"
    by (simp_all add: length_toWellFormed)
qed

lemma toWellFormed_high_end:
  assumes "is_high h"
  shows "toWellFormed (r @ [h]) = toWellFormed r @ [0xFFFD]"
proof (induction r rule: toWellFormed.induct)
  case 1
  from assms show ?case by simp
next
  case (2 u)
  from assms show ?case by (auto simp: is_high_def is_low_def)
next
  case (3 u v r)
  then show ?case by auto
qed

lemma toWellFormed_pair:
  assumes "is_high h" and "is_low l"
  shows "toWellFormed (r @ h # l # ys) = toWellFormed r @ h # l # toWellFormed ys"
proof (induction r rule: toWellFormed.induct)
  case 1
  from assms show ?case by simp
next
  case (2 u)
  from assms show ?case by (auto simp: is_high_def is_low_def)
next
  case (3 u v r)
  then show ?case by auto
qed

lemma toWellFormed_lone_low_end:
  assumes "is_low l"
  shows "xs = [] \<or> \<not> is_high (last xs) \<Longrightarrow> toWellFormed (xs @ [l]) = toWellFormed xs @ [0xFFFD]"
proof (induction xs rule: toWellFormed.induct)
  case 1
  from assms show ?case by simp
next
  case (2 u)
  with assms show ?case by (auto simp: is_high_def is_low_def)
next
  case (3 u v r)
  show ?case
  proof (cases "is_high u \<and> is_low v")
    case True
    from 3(3) True have "r = [] \<or> \<not> is_high (last r)"
      by (auto simp: is_high_def is_low_def split: if_splits)
    with 3(1) True show ?thesis by simp
  next
    case False
    from 3(3) have "\<not> is_high (last (v # r))" by simp
    with 3(2) False have "toWellFormed ((v # r) @ [l]) = toWellFormed (v # r) @ [0xFFFD]"
      by blast
    with False show ?thesis by auto
  qed
qed

lemma isWellFormed_last_low:
  assumes "isWellFormed s" and "s \<noteq> []" and "is_low (last s)"
  shows "\<exists>r h. s = r @ [h, last s] \<and> is_high h \<and> toWellFormed r = r"
proof -
  let ?l = "last s"
  from assms(2) have s: "s = butlast s @ [?l]" by simp
  have l: "?l \<noteq> 0xFFFD" using assms(3) by (auto simp: is_low_def)
  have "\<not> (butlast s = [] \<or> \<not> is_high (last (butlast s)))"
  proof
    assume "butlast s = [] \<or> \<not> is_high (last (butlast s))"
    from toWellFormed_lone_low_end [OF assms(3) this]
    have "toWellFormed s = toWellFormed (butlast s) @ [0xFFFD]" using s by simp
    with assms(1) have "s = toWellFormed (butlast s) @ [0xFFFD]" by (simp add: isWellFormed_def)
    then have "last s = 0xFFFD" by (metis last_snoc)
    with l show False by simp
  qed
  then have ne: "butlast s \<noteq> []" and h: "is_high (last (butlast s))" by simp_all
  let ?r = "butlast (butlast s)" and ?h = "last (butlast s)"
  from ne s have s2: "s = ?r @ [?h, ?l]"
    by (metis append.assoc append_Cons append_Nil append_butlast_last_id)
  from toWellFormed_pair [OF h assms(3), of ?r "[]"] s2 assms(1)
  have "toWellFormed ?r @ [?h, ?l] = ?r @ [?h, ?l]" by (simp add: isWellFormed_def)
  then have "toWellFormed ?r = ?r" by simp
  with s2 h show ?thesis by blast
qed

lemma isWellFormed_last_not_high:
  assumes "isWellFormed s" and "s \<noteq> []"
  shows "\<not> is_high (last s)"
proof
  assume h: "is_high (last s)"
  from assms(2) have s: "s = butlast s @ [last s]" by simp
  from toWellFormed_high_end [OF h, of "butlast s"] s assms(1)
  have "s = toWellFormed (butlast s) @ [0xFFFD]" by (simp add: isWellFormed_def)
  then have "last s = 0xFFFD" by (metis last_snoc)
  with h show False by (simp add: is_high_def)
qed

lemma linkFragment_facts:
  "linkFragment \<noteq> []" "10 \<notin> set linkFragment" "34 \<notin> set linkFragment"
  "hd linkFragment \<noteq> 32" "occurrences linkFragment linkFragment = 1"
  "is_ascii linkFragment"
  by (simp_all add: linkFragment_def text_of_def is_ascii_def)

lemma linkTag_index_parts:
  "linkTag_index = 10 # [32, 32] @ 34 # linkFragment @ 34 # 10 # [32, 32, 32, 32, 32, 32]"
  by (simp add: linkTag_index_def linkFragment_def text_of_def)

lemma linkTag_v3_parts:
  "linkTag_v3 = 10 # [32, 32, 32, 32, 32, 32, 32, 32] @ linkFragment @ 10 # [32, 32, 32, 32, 32, 32]"
  by (simp add: linkTag_v3_def linkFragment_def text_of_def)

lemma linkFragment_not_space: "\<not> prefix linkFragment (32 # ys)"
  by (simp add: linkFragment_def text_of_def)

lemma occurrences_spaces:
  "occurrences (replicate n 32 @ xs) linkFragment = occurrences xs linkFragment"
  by (induction n) (simp_all add: linkFragment_not_space)

lemma occurrences_linkTag_index:
  "occurrences (pre @ linkTag_index @ post) linkFragment
     = occurrences pre linkFragment + 1 + occurrences post linkFragment"
proof -
  let ?f = linkFragment
  have sp2: "[32, 32] = replicate 2 32" and sp6: "[32, 32, 32, 32, 32, 32] = replicate 6 32"
    by (simp_all add: numeral_eq_Suc)
  have "occurrences (pre @ linkTag_index @ post) ?f
      = occurrences (pre @ 10 # ([32, 32] @ 34 # (?f @ 34 # ([] @ 10 # ([32, 32, 32, 32, 32, 32] @ post))))) ?f"
    by (simp add: linkTag_index_parts)
  also have "\<dots> = occurrences pre ?f
      + occurrences ([32, 32] @ 34 # (?f @ 34 # ([] @ 10 # ([32, 32, 32, 32, 32, 32] @ post)))) ?f"
    by (rule occurrences_barrier) (rule linkFragment_facts)+
  also have "occurrences ([32, 32] @ 34 # (?f @ 34 # ([] @ 10 # ([32, 32, 32, 32, 32, 32] @ post)))) ?f
      = occurrences [32, 32] ?f + occurrences (?f @ 34 # ([] @ 10 # ([32, 32, 32, 32, 32, 32] @ post))) ?f"
    by (rule occurrences_barrier) (rule linkFragment_facts)+
  also have "occurrences (?f @ 34 # ([] @ 10 # ([32, 32, 32, 32, 32, 32] @ post))) ?f
      = occurrences ?f ?f + occurrences ([] @ 10 # ([32, 32, 32, 32, 32, 32] @ post)) ?f"
    by (rule occurrences_barrier) (rule linkFragment_facts)+
  also have "occurrences ([] @ 10 # ([32, 32, 32, 32, 32, 32] @ post)) ?f
      = occurrences [] ?f + occurrences ([32, 32, 32, 32, 32, 32] @ post) ?f"
    by (rule occurrences_barrier) (rule linkFragment_facts)+
  also have "occurrences ([32, 32, 32, 32, 32, 32] @ post) ?f = occurrences post ?f"
    unfolding sp6 by (rule occurrences_spaces)
  also have "occurrences [32, 32] ?f = 0"
    using occurrences_spaces [of 2 "[]"] by (simp add: numeral_eq_Suc linkFragment_facts)
  finally show ?thesis by (simp add: linkFragment_facts)
qed

lemma occurrences_linkTag_v3:
  "occurrences (pre @ linkTag_v3 @ post) linkFragment
     = occurrences pre linkFragment + 1 + occurrences post linkFragment"
proof -
  let ?f = linkFragment
  have sp8: "[32, 32, 32, 32, 32, 32, 32, 32] = replicate 8 32" and sp6: "[32, 32, 32, 32, 32, 32] = replicate 6 32"
    by (simp_all add: numeral_eq_Suc)
  have "occurrences (pre @ linkTag_v3 @ post) ?f
      = occurrences (pre @ 10 # (([32, 32, 32, 32, 32, 32, 32, 32] @ ?f) @ 10 # ([32, 32, 32, 32, 32, 32] @ post))) ?f"
    by (simp add: linkTag_v3_parts)
  also have "\<dots> = occurrences pre ?f
      + occurrences (([32, 32, 32, 32, 32, 32, 32, 32] @ ?f) @ 10 # ([32, 32, 32, 32, 32, 32] @ post)) ?f"
    by (rule occurrences_barrier) (rule linkFragment_facts)+
  also have "occurrences (([32, 32, 32, 32, 32, 32, 32, 32] @ ?f) @ 10 # ([32, 32, 32, 32, 32, 32] @ post)) ?f
      = occurrences ([32, 32, 32, 32, 32, 32, 32, 32] @ ?f) ?f + occurrences ([32, 32, 32, 32, 32, 32] @ post) ?f"
    by (rule occurrences_barrier) (rule linkFragment_facts)+
  also have "occurrences ([32, 32, 32, 32, 32, 32] @ post) ?f = occurrences post ?f"
    unfolding sp6 by (rule occurrences_spaces)
  also have "occurrences ([32, 32, 32, 32, 32, 32, 32, 32] @ ?f) ?f = occurrences ?f ?f"
    unfolding sp8 by (rule occurrences_spaces)
  finally show ?thesis by (simp add: linkFragment_facts)
qed

lemma not_includes_parts:
  assumes "\<not> str_includes (xs @ ys) pat" and "pat \<noteq> []"
  shows "occurrences xs pat = 0" and "occurrences ys pat = 0"
proof -
  from assms(1) have "occurrences (xs @ ys) pat = 0" by (simp add: occurrences_zero_iff)
  with occurrences_append_ge [OF assms(2), of xs ys] show "occurrences xs pat = 0" and "occurrences ys pat = 0"
    by simp_all
qed

lemma patched_once:
  assumes tag: "\<And>pre post. occurrences (pre @ linkTag @ post) linkFragment
                  = occurrences pre linkFragment + 1 + occurrences post linkFragment"
      and "\<not> str_includes (pre @ post) linkFragment"
  shows "occurrences (pre @ linkTag @ post) linkFragment = 1"
  using not_includes_parts [OF assms(2) linkFragment_facts(1)] by (simp add: tag)

lemma patch_absent_fragment:
  assumes "theme_liquid p = Some s" and "\<not> str_includes s linkFragment"
  shows "addTailwindToThemeLiquid linkTag p =
           (Returned,
            p\<lparr>theme_liquid :=
                Some (toWellFormed (str_slice s 0 (str_indexOf s headEnd) @ linkTag
                                    @ str_slice_from s (str_indexOf s headEnd)))\<rparr>,
            [WriteFile ''layout/theme.liquid'', Echo Link_added])"
  using assms by (simp add: addTailwindToThemeLiquid_def Let_def)

lemma ascii_literals:
  "is_ascii linkTag_index" "linkTag_index \<noteq> []" "is_ascii linkTag_v3" "linkTag_v3 \<noteq> []"
  "is_ascii headEnd" "headEnd \<noteq> []"
  by (simp_all add: linkTag_index_def linkTag_v3_def headEnd_def text_of_def is_ascii_def)

lemma is_ascii_append: "is_ascii (xs @ ys) \<longleftrightarrow> is_ascii xs \<and> is_ascii ys"
  by (simp add: is_ascii_def)

lemma patch_at_head_end:
  assumes "theme_liquid p = Some s" and "isWellFormed s"
      and "\<not> str_includes s linkFragment"
      and s: "s = pre @ headEnd @ post" and idx: "str_indexOf s headEnd = int (length pre)"
      and "is_ascii linkTag" and "linkTag \<noteq> []"
  shows "addTailwindToThemeLiquid linkTag p =
      (Returned, p\<lparr>theme_liquid := Some (pre @ linkTag @ headEnd @ post)\<rparr>,
       [WriteFile ''layout/theme.liquid'', Echo Link_added])"
proof -
  have sl1: "str_slice s 0 (str_indexOf s headEnd) = pre"
    unfolding idx by (simp add: slice_upto s)
  have sl2: "str_slice_from s (str_indexOf s headEnd) = headEnd @ post"
    unfolding idx by (simp add: slice_from s)
  from assms(2) s have "toWellFormed pre = pre" and "toWellFormed post = post"
    using isWellFormed_around_block [of pre headEnd post] ascii_literals(5,6) by simp_all
  moreover have "toWellFormed (pre @ (linkTag @ headEnd) @ post)
      = toWellFormed pre @ (linkTag @ headEnd) @ toWellFormed post"
    using assms(6,7) ascii_literals(5) by (intro toWellFormed_ascii_block) (simp_all add: is_ascii_append)
  ultimately have "toWellFormed (pre @ linkTag @ headEnd @ post) = pre @ linkTag @ headEnd @ post"
    by simp
  with patch_absent_fragment [OF assms(1,3), of linkTag] sl1 sl2 show ?thesis by simp
qed


section \<open>The template patcher: properties\<close>

text \<open>
  C4, as the code has it. A template (a text as a read returns it) that does not
  contain the link fragment but contains \<open></head>\<close>: the patcher writes the template
  back with its \<open>linkTag\<close> block
  inserted immediately before the first \<open></head>\<close>, and the fragment then occurs
  exactly once. The block is not the fragment: it holds the fragment on a line of its
  own and ends with a newline and six spaces, which stand between the fragment and
  \<open></head>\<close>. Both scripts.
\<close>

theorem patch_inserts_before_head_end:
  assumes "theme_liquid p = Some s" and "isWellFormed s"
      and "\<not> str_includes s linkFragment"
      and "str_includes s headEnd"
  shows "\<exists>pre post. s = pre @ headEnd @ post
           \<and> (\<forall>j < length pre. \<not> prefix headEnd (drop j s))
           \<and> addTailwindToThemeLiquid_index p =
               (Returned, p\<lparr>theme_liquid := Some (pre @ linkTag_index @ headEnd @ post)\<rparr>,
                [WriteFile ''layout/theme.liquid'', Echo Link_added])
           \<and> occurrences (pre @ linkTag_index @ headEnd @ post) linkFragment = 1
           \<and> addTailwindToThemeLiquid_v3 p =
               (Returned, p\<lparr>theme_liquid := Some (pre @ linkTag_v3 @ headEnd @ post)\<rparr>,
                [WriteFile ''layout/theme.liquid'', Echo Link_added])
           \<and> occurrences (pre @ linkTag_v3 @ headEnd @ post) linkFragment = 1"
proof -
  from str_indexOf_present [OF assms(4)] obtain pre post where
    s: "s = pre @ headEnd @ post" and idx: "str_indexOf s headEnd = int (length pre)"
    and first: "\<forall>j < length pre. \<not> prefix headEnd (drop j s)" by blast
  note run = patch_at_head_end [OF assms(1-3) s idx]
  from assms(3) have none: "\<not> str_includes (pre @ (headEnd @ post)) linkFragment"
    by (simp add: s)
  have "occurrences (pre @ linkTag_index @ headEnd @ post) linkFragment = 1"
    using patched_once [OF occurrences_linkTag_index none] .
  moreover have "occurrences (pre @ linkTag_v3 @ headEnd @ post) linkFragment = 1"
    using patched_once [OF occurrences_linkTag_v3 none] .
  ultimately show ?thesis
    using s first run [OF ascii_literals(1,2)] run [OF ascii_literals(3,4)]
    unfolding addTailwindToThemeLiquid_index_def addTailwindToThemeLiquid_v3_def by blast
qed

lemma sample_themes_well_formed:
  "isWellFormed plain_theme" "isWellFormed headless_theme" "isWellFormed emoji_theme"
  by (simp_all add: isWellFormed_def plain_theme_def headless_theme_def emoji_theme_def
      text_of_def is_high_def is_low_def)

theorem patch_inserts_before_head_end_witness:
  "theme_liquid (theme_only plain_theme) = Some plain_theme
   \<and> isWellFormed plain_theme
   \<and> \<not> str_includes plain_theme linkFragment
   \<and> str_includes plain_theme headEnd
   \<and> (\<exists>pre post. plain_theme = pre @ headEnd @ post
           \<and> (\<forall>j < length pre. \<not> prefix headEnd (drop j plain_theme))
           \<and> addTailwindToThemeLiquid_index (theme_only plain_theme) =
               (Returned, (theme_only plain_theme)\<lparr>theme_liquid := Some (pre @ linkTag_index @ headEnd @ post)\<rparr>,
                [WriteFile ''layout/theme.liquid'', Echo Link_added])
           \<and> occurrences (pre @ linkTag_index @ headEnd @ post) linkFragment = 1
           \<and> addTailwindToThemeLiquid_v3 (theme_only plain_theme) =
               (Returned, (theme_only plain_theme)\<lparr>theme_liquid := Some (pre @ linkTag_v3 @ headEnd @ post)\<rparr>,
                [WriteFile ''layout/theme.liquid'', Echo Link_added])
           \<and> occurrences (pre @ linkTag_v3 @ headEnd @ post) linkFragment = 1)"
proof -
  have h1: "theme_liquid (theme_only plain_theme) = Some plain_theme"
    by (simp add: theme_only_def)
  have h2: "\<not> str_includes plain_theme linkFragment"
    by (simp add: linkFragment_def plain_theme_def text_of_def)
  have h3: "str_includes plain_theme headEnd"
    by (simp add: headEnd_def plain_theme_def text_of_def)
  note r = patch_inserts_before_head_end [OF h1 sample_themes_well_formed(1) h2 h3]
  show ?thesis by (intro conjI h1 h2 h3 sample_themes_well_formed(1) r)
qed

lemma patched_plain_theme:
  "theme_liquid (project_of (addTailwindToThemeLiquid_index (theme_only plain_theme)))
     = Some (text_of ''<head>'' @ linkTag_index @ headEnd)"
  "theme_liquid (project_of (addTailwindToThemeLiquid_v3 (theme_only plain_theme)))
     = Some (text_of ''<head>'' @ linkTag_v3 @ headEnd)"
  by (simp_all add: addTailwindToThemeLiquid_index_def addTailwindToThemeLiquid_v3_def
      addTailwindToThemeLiquid_def project_of_def theme_only_def plain_theme_def
      linkFragment_def headEnd_def text_of_def Let_def str_slice_def str_slice_from_def
      linkTag_index_def linkTag_v3_def is_high_def is_low_def)

text \<open>
  C4 as stated fails: the patcher does not insert the fragment immediately before
  \<open></head>\<close>. On the template \<open><head></head>\<close> the new content is not the old one with
  the fragment put before \<open></head>\<close>, and nowhere in it is the fragment directly
  followed by \<open></head>\<close>. Both scripts.
\<close>

theorem patch_inserts_block_not_fragment:
  "theme_liquid (project_of (addTailwindToThemeLiquid_index (theme_only plain_theme)))
     = Some (text_of ''<head>'' @ linkTag_index @ headEnd)
   \<and> text_of ''<head>'' @ linkTag_index @ headEnd \<noteq> text_of ''<head>'' @ linkFragment @ headEnd
   \<and> \<not> str_includes (text_of ''<head>'' @ linkTag_index @ headEnd) (linkFragment @ headEnd)
   \<and> theme_liquid (project_of (addTailwindToThemeLiquid_v3 (theme_only plain_theme)))
     = Some (text_of ''<head>'' @ linkTag_v3 @ headEnd)
   \<and> text_of ''<head>'' @ linkTag_v3 @ headEnd \<noteq> text_of ''<head>'' @ linkFragment @ headEnd
   \<and> \<not> str_includes (text_of ''<head>'' @ linkTag_v3 @ headEnd) (linkFragment @ headEnd)"
proof -
  have "text_of ''<head>'' @ linkTag_index @ headEnd \<noteq> text_of ''<head>'' @ linkFragment @ headEnd"
    "text_of ''<head>'' @ linkTag_v3 @ headEnd \<noteq> text_of ''<head>'' @ linkFragment @ headEnd"
    "\<not> str_includes (text_of ''<head>'' @ linkTag_index @ headEnd) (linkFragment @ headEnd)"
    "\<not> str_includes (text_of ''<head>'' @ linkTag_v3 @ headEnd) (linkFragment @ headEnd)"
    by (simp_all add: linkTag_index_def linkTag_v3_def linkFragment_def headEnd_def text_of_def)
  with patched_plain_theme show ?thesis by (intro conjI)
qed

text \<open>
  C5. A template that already contains the link fragment: the patcher takes the
  ``already exists'' branch, writes nothing, and the directory is as it was.
\<close>

theorem patch_already_present:
  assumes "theme_liquid p = Some s" and "str_includes s linkFragment"
  shows "addTailwindToThemeLiquid_index p = (Returned, p, [Echo Link_exists])
       \<and> addTailwindToThemeLiquid_v3 p = (Returned, p, [Echo Link_exists])"
  using assms
  by (simp add: addTailwindToThemeLiquid_index_def addTailwindToThemeLiquid_v3_def
      addTailwindToThemeLiquid_def)

theorem patch_already_present_witness:
  "theme_liquid (theme_only linked_theme) = Some linked_theme
   \<and> str_includes linked_theme linkFragment
   \<and> addTailwindToThemeLiquid_index (theme_only linked_theme)
        = (Returned, theme_only linked_theme, [Echo Link_exists])
   \<and> addTailwindToThemeLiquid_v3 (theme_only linked_theme)
        = (Returned, theme_only linked_theme, [Echo Link_exists])"
proof -
  have h1: "theme_liquid (theme_only linked_theme) = Some linked_theme"
    by (simp add: theme_only_def)
  have h2: "str_includes linked_theme linkFragment"
    by (simp add: linkFragment_def linked_theme_def text_of_def)
  note r = patch_already_present [OF h1 h2]
  show ?thesis by (intro conjI h1 h2 r [THEN conjunct1] r [THEN conjunct2])
qed

lemma patch_at_end:
  assumes "theme_liquid p = Some s" and "\<not> str_includes s linkFragment"
      and "\<not> str_includes s headEnd"
  shows "addTailwindToThemeLiquid linkTag p =
      (Returned,
       p\<lparr>theme_liquid :=
           Some (toWellFormed (butlast s @ linkTag @ (if s = [] then [] else [last s])))\<rparr>,
       [WriteFile ''layout/theme.liquid'', Echo Link_added])"
  using patch_absent_fragment [OF assms(1,2), of linkTag]
  unfolding str_indexOf_absent [OF assms(3)] slice_minus_one slice_from_minus_one .

lemma kept_at_end:
  assumes "isWellFormed s" and "s = [] \<or> \<not> is_low (last s)"
      and "is_ascii linkTag" and "linkTag \<noteq> []"
  shows "toWellFormed (butlast s @ linkTag @ (if s = [] then [] else [last s]))
           = butlast s @ linkTag @ (if s = [] then [] else [last s])"
proof (cases "s = []")
  case True
  with assms(3) show ?thesis by (simp add: toWellFormed_ascii)
next
  case False
  with assms(2) have low: "\<not> is_low (last s)" by simp
  from isWellFormed_last_not_high [OF assms(1) False] have high: "\<not> is_high (last s)" .
  from False have s: "s = butlast s @ last s # []" by simp
  from toWellFormed_plain_unit [OF high low, of "butlast s" "[]"] s assms(1)
  have "toWellFormed (butlast s) @ [last s] = butlast s @ [last s]"
    by (simp add: isWellFormed_def)
  then have "toWellFormed (butlast s) = butlast s" by simp
  moreover from high low have "toWellFormed [last s] = [last s]" by simp
  ultimately show ?thesis
    using False toWellFormed_ascii_block [OF assms(3,4), of "butlast s" "[last s]"] by simp
qed

lemma split_at_end:
  assumes "isWellFormed s" and "s \<noteq> []" and "is_low (last s)"
      and "is_ascii linkTag" and "linkTag \<noteq> []"
  shows "toWellFormed (butlast s @ linkTag @ [last s])
           = butlast (butlast s) @ [0xFFFD] @ linkTag @ [0xFFFD]"
proof -
  from isWellFormed_last_low [OF assms(1-3)] obtain r h where
    s: "s = r @ [h, last s]" and h: "is_high h" and r: "toWellFormed r = r" by blast
  from s have b: "butlast s = r @ [h]"
    by (metis append.assoc append_Cons append_Nil butlast_snoc)
  then have bb: "butlast (butlast s) = r" by simp
  from assms(3) have "toWellFormed [last s] = [0xFFFD]" by simp
  with toWellFormed_ascii_block [OF assms(4,5), of "butlast s" "[last s]"]
    toWellFormed_high_end [OF h, of r] b r bb
  show ?thesis by simp
qed

text \<open>
  C10, as the code has it. A template with neither the link fragment nor \<open></head>\<close>:
  \<open>indexOf\<close> gives \<open>-1\<close>, nothing fails, and the \<open>linkTag\<close> block goes immediately before
  the last code unit of the text; the file then holds that string as it is encoded.
  When the text does not end in a low surrogate, that is the old text without its last
  unit, the block, then the last unit, and nothing of the old text is lost. When it
  does, the last character is a surrogate pair, the block lands between its halves
  and each half is written as U+FFFD: the last character is lost. Both scripts.
\<close>

theorem patch_without_head_end:
  assumes "theme_liquid p = Some s"
      and "\<not> str_includes s linkFragment"
      and "\<not> str_includes s headEnd"
  shows "str_indexOf s headEnd = - 1
       \<and> addTailwindToThemeLiquid_index p =
           (Returned,
            p\<lparr>theme_liquid :=
                Some (toWellFormed (butlast s @ linkTag_index @ (if s = [] then [] else [last s])))\<rparr>,
            [WriteFile ''layout/theme.liquid'', Echo Link_added])
       \<and> addTailwindToThemeLiquid_v3 p =
           (Returned,
            p\<lparr>theme_liquid :=
                Some (toWellFormed (butlast s @ linkTag_v3 @ (if s = [] then [] else [last s])))\<rparr>,
            [WriteFile ''layout/theme.liquid'', Echo Link_added])
       \<and> (isWellFormed s \<longrightarrow> s = [] \<or> \<not> is_low (last s) \<longrightarrow>
             toWellFormed (butlast s @ linkTag_index @ (if s = [] then [] else [last s]))
               = butlast s @ linkTag_index @ (if s = [] then [] else [last s])
           \<and> toWellFormed (butlast s @ linkTag_v3 @ (if s = [] then [] else [last s]))
               = butlast s @ linkTag_v3 @ (if s = [] then [] else [last s]))
       \<and> (isWellFormed s \<longrightarrow> s \<noteq> [] \<longrightarrow> is_low (last s) \<longrightarrow>
             toWellFormed (butlast s @ linkTag_index @ [last s])
               = butlast (butlast s) @ [0xFFFD] @ linkTag_index @ [0xFFFD]
           \<and> toWellFormed (butlast s @ linkTag_v3 @ [last s])
               = butlast (butlast s) @ [0xFFFD] @ linkTag_v3 @ [0xFFFD])"
proof -
  have "str_indexOf s headEnd = - 1"
    using assms(3) by (rule str_indexOf_absent)
  moreover note patch_at_end [OF assms, of linkTag_index] patch_at_end [OF assms, of linkTag_v3]
  moreover note kept_at_end [OF _ _ ascii_literals(1,2), of s]
    kept_at_end [OF _ _ ascii_literals(3,4), of s]
    split_at_end [OF _ _ _ ascii_literals(1,2), of s]
    split_at_end [OF _ _ _ ascii_literals(3,4), of s]
  ultimately show ?thesis
    unfolding addTailwindToThemeLiquid_index_def addTailwindToThemeLiquid_v3_def by blast
qed

lemma sample_last_units:
  "headless_theme \<noteq> []" "\<not> is_low (last headless_theme)"
  "emoji_theme \<noteq> []" "is_low (last emoji_theme)"
  "butlast (butlast emoji_theme) = text_of ''<body>''"
  by (simp_all add: headless_theme_def emoji_theme_def text_of_def is_low_def)

lemma sample_themes_bare:
  "\<not> str_includes headless_theme linkFragment" "\<not> str_includes headless_theme headEnd"
  "\<not> str_includes emoji_theme linkFragment" "\<not> str_includes emoji_theme headEnd"
  by (simp_all add: headless_theme_def emoji_theme_def linkFragment_def headEnd_def text_of_def)

theorem patch_without_head_end_witness:
  "theme_liquid (theme_only headless_theme) = Some headless_theme
   \<and> \<not> str_includes headless_theme linkFragment
   \<and> \<not> str_includes headless_theme headEnd
   \<and> isWellFormed headless_theme
   \<and> \<not> is_low (last headless_theme)
   \<and> str_indexOf headless_theme headEnd = - 1
   \<and> addTailwindToThemeLiquid_index (theme_only headless_theme) =
           (Returned,
            (theme_only headless_theme)\<lparr>theme_liquid :=
               Some (toWellFormed (butlast headless_theme @ linkTag_index
                     @ (if headless_theme = [] then [] else [last headless_theme])))\<rparr>,
            [WriteFile ''layout/theme.liquid'', Echo Link_added])
   \<and> toWellFormed (butlast headless_theme @ linkTag_index
                     @ (if headless_theme = [] then [] else [last headless_theme]))
        = butlast headless_theme @ linkTag_index
            @ (if headless_theme = [] then [] else [last headless_theme])
   \<and> theme_liquid (theme_only emoji_theme) = Some emoji_theme
   \<and> \<not> str_includes emoji_theme linkFragment
   \<and> \<not> str_includes emoji_theme headEnd
   \<and> isWellFormed emoji_theme \<and> emoji_theme \<noteq> [] \<and> is_low (last emoji_theme)
   \<and> addTailwindToThemeLiquid_v3 (theme_only emoji_theme) =
           (Returned,
            (theme_only emoji_theme)\<lparr>theme_liquid :=
               Some (toWellFormed (butlast emoji_theme @ linkTag_v3
                     @ (if emoji_theme = [] then [] else [last emoji_theme])))\<rparr>,
            [WriteFile ''layout/theme.liquid'', Echo Link_added])
   \<and> toWellFormed (butlast emoji_theme @ linkTag_v3 @ [last emoji_theme])
        = butlast (butlast emoji_theme) @ [0xFFFD] @ linkTag_v3 @ [0xFFFD]"
proof -
  have h1: "theme_liquid (theme_only headless_theme) = Some headless_theme"
    and e1: "theme_liquid (theme_only emoji_theme) = Some emoji_theme"
    by (simp_all add: theme_only_def)
  note r = patch_without_head_end [OF h1 sample_themes_bare(1,2)]
  note q = patch_without_head_end [OF e1 sample_themes_bare(3,4)]
  note r4 = r [THEN conjunct2, THEN conjunct2, THEN conjunct2, THEN conjunct1, THEN mp,
      THEN mp, OF sample_themes_well_formed(2) disjI2, OF sample_last_units(2)]
  note q5 = q [THEN conjunct2, THEN conjunct2, THEN conjunct2, THEN conjunct2, THEN mp,
      THEN mp, THEN mp, OF sample_themes_well_formed(3) sample_last_units(3,4)]
  show ?thesis
    by (intro conjI h1 e1 sample_themes_bare sample_themes_well_formed(2,3)
        sample_last_units(2,3,4) r [THEN conjunct1]
        r [THEN conjunct2, THEN conjunct1] r4 [THEN conjunct1]
        q [THEN conjunct2, THEN conjunct2, THEN conjunct1] q5 [THEN conjunct2])
qed

text \<open>
  C10 as stated fails on a template that ends in a character outside the Basic
  Multilingual Plane: the new text is not the old one with the block before its last
  unit, and the last character of the old text no longer occurs in it.
\<close>

theorem patch_loses_last_character:
  "\<not> str_includes emoji_theme linkFragment
   \<and> \<not> str_includes emoji_theme headEnd
   \<and> isWellFormed emoji_theme
   \<and> str_includes emoji_theme [0xD83D, 0xDE00]
   \<and> theme_liquid (project_of (addTailwindToThemeLiquid_index (theme_only emoji_theme)))
       = Some (text_of ''<body>'' @ [0xFFFD] @ linkTag_index @ [0xFFFD])
   \<and> text_of ''<body>'' @ [0xFFFD] @ linkTag_index @ [0xFFFD]
       \<noteq> butlast emoji_theme @ linkTag_index @ [last emoji_theme]
   \<and> \<not> str_includes (text_of ''<body>'' @ [0xFFFD] @ linkTag_index @ [0xFFFD]) [0xD83D, 0xDE00]
   \<and> theme_liquid (project_of (addTailwindToThemeLiquid_v3 (theme_only emoji_theme)))
       = Some (text_of ''<body>'' @ [0xFFFD] @ linkTag_v3 @ [0xFFFD])
   \<and> \<not> str_includes (text_of ''<body>'' @ [0xFFFD] @ linkTag_v3 @ [0xFFFD]) [0xD83D, 0xDE00]"
proof -
  have "theme_liquid (project_of (addTailwindToThemeLiquid_index (theme_only emoji_theme)))
       = Some (text_of ''<body>'' @ [0xFFFD] @ linkTag_index @ [0xFFFD])"
    "theme_liquid (project_of (addTailwindToThemeLiquid_v3 (theme_only emoji_theme)))
       = Some (text_of ''<body>'' @ [0xFFFD] @ linkTag_v3 @ [0xFFFD])"
    by (simp_all add: addTailwindToThemeLiquid_index_def addTailwindToThemeLiquid_v3_def
        addTailwindToThemeLiquid_def project_of_def theme_only_def emoji_theme_def
        linkFragment_def headEnd_def text_of_def Let_def str_slice_def str_slice_from_def
        linkTag_index_def linkTag_v3_def is_high_def is_low_def)
  moreover have "str_includes emoji_theme [0xD83D, 0xDE00]"
    "text_of ''<body>'' @ [0xFFFD] @ linkTag_index @ [0xFFFD]
       \<noteq> butlast emoji_theme @ linkTag_index @ [last emoji_theme]"
    "\<not> str_includes (text_of ''<body>'' @ [0xFFFD] @ linkTag_index @ [0xFFFD]) [0xD83D, 0xDE00]"
    "\<not> str_includes (text_of ''<body>'' @ [0xFFFD] @ linkTag_v3 @ [0xFFFD]) [0xD83D, 0xDE00]"
    by (simp_all add: emoji_theme_def linkTag_index_def linkTag_v3_def text_of_def)
  ultimately show ?thesis
    by (intro conjI sample_themes_bare(3,4) sample_themes_well_formed(3))
qed


section \<open>The ignore files: properties\<close>

lemma gitIgnoreBlock_lines:
  "list_all (\<lambda>l. occurrences gitIgnoreBlock l = 1) gitIgnoreLines"
  by (simp add: gitIgnoreBlock_def gitIgnoreLines_def)

lemma shopifyIgnoreBlock_lines:
  "list_all (\<lambda>l. occurrences shopifyIgnoreBlock l = 1) shopifyIgnoreLines"
  by (simp add: shopifyIgnoreBlock_def shopifyIgnoreLines_def)

lemma gitIgnoreBlock_includes:
  "str_includes gitIgnoreBlock ''.DS_Store''" "str_includes gitIgnoreBlock ''node_modules''"
  "str_includes gitIgnoreBlock ''package-lock.json''" "str_includes gitIgnoreBlock ''.env''"
  "str_includes gitIgnoreBlock ''/.idea''"
  by (simp_all add: gitIgnoreBlock_def)

lemma shopifyIgnoreBlock_includes:
  "str_includes shopifyIgnoreBlock ''package.json''"
  "str_includes shopifyIgnoreBlock ''package-lock.json''"
  "str_includes shopifyIgnoreBlock ''tailwind.config.js''"
  "str_includes shopifyIgnoreBlock ''tailwind-config.css''"
  "str_includes shopifyIgnoreBlock ''html-ref.html''"
  by (simp_all add: shopifyIgnoreBlock_def)

lemma gitIgnoreLines_nonempty: "list_all (\<lambda>l. l \<noteq> []) gitIgnoreLines"
  by (simp add: gitIgnoreLines_def)

lemma shopifyIgnoreLines_nonempty: "list_all (\<lambda>l. l \<noteq> []) shopifyIgnoreLines"
  by (simp add: shopifyIgnoreLines_def)

lemma doubled:
  assumes "str_includes h l" and "occurrences block l = 1" and "l \<noteq> []"
  shows "2 \<le> occurrences (h @ block) l"
proof -
  from occurrences_append_ge [OF assms(3), of h block] assms(2)
  have "occurrences h l + 1 \<le> occurrences (h @ block) l" by simp
  moreover from assms(1) have "occurrences h l \<noteq> 0" by (simp add: occurrences_zero_iff)
  ultimately show ?thesis by simp
qed


text \<open>
  C3, as the code has it. When the ignore file is absent it is created with the block
  of required lines, and the check that follows finds every required line in what was
  just written: nothing is appended, and each required line occurs exactly once in the
  new file.
\<close>

theorem created_ignore_file_has_block_once:
  "(gitignore p = None \<longrightarrow>
      createGitIgnore p =
        (Returned, p\<lparr>gitignore := Some gitIgnoreBlock\<rparr>,
         [Echo Gitignore_creating, WriteFile ''.gitignore'', Echo Gitignore_created])
      \<and> list_all (\<lambda>l. occurrences gitIgnoreBlock l = 1) gitIgnoreLines)
 \<and> (shopifyignore p = None \<longrightarrow>
      createShopifyIgnore p =
        (Returned, p\<lparr>shopifyignore := Some shopifyIgnoreBlock\<rparr>,
         [Echo Shopifyignore_creating, WriteFile ''.shopifyignore'', Echo Shopifyignore_created])
      \<and> list_all (\<lambda>l. occurrences shopifyIgnoreBlock l = 1) shopifyIgnoreLines)"
  using gitIgnoreBlock_lines shopifyIgnoreBlock_lines
  by (simp add: createGitIgnore_def createShopifyIgnore_def gitIgnoreBlock_includes
      shopifyIgnoreBlock_includes)

theorem created_ignore_file_has_block_once_witness:
  "gitignore empty_directory = None
   \<and> createGitIgnore empty_directory =
        (Returned, empty_directory\<lparr>gitignore := Some gitIgnoreBlock\<rparr>,
         [Echo Gitignore_creating, WriteFile ''.gitignore'', Echo Gitignore_created])
   \<and> list_all (\<lambda>l. occurrences gitIgnoreBlock l = 1) gitIgnoreLines
   \<and> shopifyignore empty_directory = None
   \<and> createShopifyIgnore empty_directory =
        (Returned, empty_directory\<lparr>shopifyignore := Some shopifyIgnoreBlock\<rparr>,
         [Echo Shopifyignore_creating, WriteFile ''.shopifyignore'', Echo Shopifyignore_created])
   \<and> list_all (\<lambda>l. occurrences shopifyIgnoreBlock l = 1) shopifyIgnoreLines"
proof -
  have h1: "gitignore empty_directory = None" and h2: "shopifyignore empty_directory = None"
    by (simp_all add: empty_directory_def)
  from created_ignore_file_has_block_once [of empty_directory] h1 h2 show ?thesis by blast
qed


text \<open>
  C3 as stated fails: after \<open>createGitIgnore\<close> on a directory without
  \<open>.gitignore\<close> the file holds the block once, not twice, and no append took place.
\<close>

theorem created_ignore_file_not_doubled:
  "gitignore (project_of (createGitIgnore empty_directory)) = Some gitIgnoreBlock
   \<and> gitIgnoreBlock \<noteq> gitIgnoreBlock @ gitIgnoreBlock
   \<and> occurrences gitIgnoreBlock ''node_modules'' = 1
   \<and> AppendFile ''.gitignore'' \<notin> set (events_of (createGitIgnore empty_directory))"
  by (simp add: createGitIgnore_def empty_directory_def project_of_def events_of_def
      gitIgnoreBlock_includes) (simp add: gitIgnoreBlock_def)


text \<open>
  C6. An ignore file that contains every required line as a substring: the check
  passes, nothing is appended, and the directory is as it was. Both ignore files.
\<close>

theorem reconcile_unchanged:
  "(gitignore p = Some g \<longrightarrow> list_all (str_includes g) gitIgnoreLines \<longrightarrow>
      createGitIgnore p = (Returned, p, [Echo Gitignore_exists]))
 \<and> (shopifyignore p = Some h \<longrightarrow> list_all (str_includes h) shopifyIgnoreLines \<longrightarrow>
      createShopifyIgnore p = (Returned, p, [Echo Shopifyignore_exists]))"
  by (simp add: createGitIgnore_def createShopifyIgnore_def gitIgnoreLines_def
      shopifyIgnoreLines_def)

theorem reconcile_unchanged_witness:
  "gitignore ignoring_project = Some gitIgnoreBlock
   \<and> list_all (str_includes gitIgnoreBlock) gitIgnoreLines
   \<and> createGitIgnore ignoring_project = (Returned, ignoring_project, [Echo Gitignore_exists])
   \<and> shopifyignore ignoring_project = Some shopifyIgnoreBlock
   \<and> list_all (str_includes shopifyIgnoreBlock) shopifyIgnoreLines
   \<and> createShopifyIgnore ignoring_project
        = (Returned, ignoring_project, [Echo Shopifyignore_exists])"
proof -
  have h1: "gitignore ignoring_project = Some gitIgnoreBlock"
    and h2: "shopifyignore ignoring_project = Some shopifyIgnoreBlock"
    by (simp_all add: ignoring_project_def)
  have h3: "list_all (str_includes gitIgnoreBlock) gitIgnoreLines"
    by (simp add: gitIgnoreLines_def gitIgnoreBlock_includes)
  have h4: "list_all (str_includes shopifyIgnoreBlock) shopifyIgnoreLines"
    by (simp add: shopifyIgnoreLines_def shopifyIgnoreBlock_includes)
  from reconcile_unchanged [of ignoring_project gitIgnoreBlock shopifyIgnoreBlock] h1 h2 h3 h4
  show ?thesis by blast
qed


text \<open>
  C7. An existing ignore file in which a required line is missing (exactly one, or
  more): the whole block is appended, not the missing line alone, so every required
  line that was already there now occurs at least twice. Both ignore files.
\<close>

theorem reconcile_appends_whole_block:
  "(shopifyignore p = Some h \<longrightarrow> \<not> list_all (str_includes h) shopifyIgnoreLines \<longrightarrow>
      createShopifyIgnore p =
        (Returned, p\<lparr>shopifyignore := Some (h @ shopifyIgnoreBlock)\<rparr>,
         [Echo Shopifyignore_exists, Echo Shopifyignore_updating, AppendFile ''.shopifyignore'',
          Echo Shopifyignore_updated])
      \<and> list_all (\<lambda>l. str_includes h l \<longrightarrow> 2 \<le> occurrences (h @ shopifyIgnoreBlock) l)
           shopifyIgnoreLines)
 \<and> (gitignore p = Some g \<longrightarrow> \<not> list_all (str_includes g) gitIgnoreLines \<longrightarrow>
      createGitIgnore p =
        (Returned, p\<lparr>gitignore := Some (g @ gitIgnoreBlock)\<rparr>,
         [Echo Gitignore_exists, Echo Gitignore_updating, AppendFile ''.gitignore'',
          Echo Gitignore_updated])
      \<and> list_all (\<lambda>l. str_includes g l \<longrightarrow> 2 \<le> occurrences (g @ gitIgnoreBlock) l)
           gitIgnoreLines)"
proof -
  have "list_all (\<lambda>l. str_includes h l \<longrightarrow> 2 \<le> occurrences (h @ shopifyIgnoreBlock) l)
           shopifyIgnoreLines"
    using shopifyIgnoreBlock_lines shopifyIgnoreLines_nonempty
    by (auto simp: list_all_iff intro: doubled)
  moreover have "list_all (\<lambda>l. str_includes g l \<longrightarrow> 2 \<le> occurrences (g @ gitIgnoreBlock) l)
           gitIgnoreLines"
    using gitIgnoreBlock_lines gitIgnoreLines_nonempty
    by (auto simp: list_all_iff intro: doubled)
  moreover have "shopifyignore p = Some h \<Longrightarrow> \<not> list_all (str_includes h) shopifyIgnoreLines \<Longrightarrow>
      createShopifyIgnore p =
        (Returned, p\<lparr>shopifyignore := Some (h @ shopifyIgnoreBlock)\<rparr>,
         [Echo Shopifyignore_exists, Echo Shopifyignore_updating, AppendFile ''.shopifyignore'',
          Echo Shopifyignore_updated])"
    by (auto simp: createShopifyIgnore_def shopifyIgnoreLines_def)
  moreover have "gitignore p = Some g \<Longrightarrow> \<not> list_all (str_includes g) gitIgnoreLines \<Longrightarrow>
      createGitIgnore p =
        (Returned, p\<lparr>gitignore := Some (g @ gitIgnoreBlock)\<rparr>,
         [Echo Gitignore_exists, Echo Gitignore_updating, AppendFile ''.gitignore'',
          Echo Gitignore_updated])"
    by (auto simp: createGitIgnore_def gitIgnoreLines_def)
  ultimately show ?thesis by blast
qed

theorem reconcile_appends_whole_block_witness:
  "shopifyignore partial_project = Some partial_shopifyignore
   \<and> filter (\<lambda>l. \<not> str_includes partial_shopifyignore l) shopifyIgnoreLines = [''html-ref.html'']
   \<and> \<not> list_all (str_includes partial_shopifyignore) shopifyIgnoreLines
   \<and> createShopifyIgnore partial_project =
        (Returned, partial_project\<lparr>shopifyignore := Some (partial_shopifyignore @ shopifyIgnoreBlock)\<rparr>,
         [Echo Shopifyignore_exists, Echo Shopifyignore_updating, AppendFile ''.shopifyignore'',
          Echo Shopifyignore_updated])
   \<and> list_all (\<lambda>l. str_includes partial_shopifyignore l
                     \<longrightarrow> 2 \<le> occurrences (partial_shopifyignore @ shopifyIgnoreBlock) l)
           shopifyIgnoreLines
   \<and> gitignore partial_project = Some partial_gitignore
   \<and> filter (\<lambda>l. \<not> str_includes partial_gitignore l) gitIgnoreLines = [''package-lock.json'']
   \<and> \<not> list_all (str_includes partial_gitignore) gitIgnoreLines
   \<and> createGitIgnore partial_project =
        (Returned, partial_project\<lparr>gitignore := Some (partial_gitignore @ gitIgnoreBlock)\<rparr>,
         [Echo Gitignore_exists, Echo Gitignore_updating, AppendFile ''.gitignore'',
          Echo Gitignore_updated])
   \<and> list_all (\<lambda>l. str_includes partial_gitignore l
                     \<longrightarrow> 2 \<le> occurrences (partial_gitignore @ gitIgnoreBlock) l)
           gitIgnoreLines"
proof -
  have h1: "shopifyignore partial_project = Some partial_shopifyignore"
    and h2: "gitignore partial_project = Some partial_gitignore"
    by (simp_all add: partial_project_def)
  have h3: "filter (\<lambda>l. \<not> str_includes partial_shopifyignore l) shopifyIgnoreLines
              = [''html-ref.html'']"
    by (simp add: shopifyIgnoreLines_def partial_shopifyignore_def)
  have h4: "filter (\<lambda>l. \<not> str_includes partial_gitignore l) gitIgnoreLines
              = [''package-lock.json'']"
    by (simp add: gitIgnoreLines_def partial_gitignore_def)
  have h5: "\<not> list_all (str_includes partial_shopifyignore) shopifyIgnoreLines"
    by (simp add: shopifyIgnoreLines_def partial_shopifyignore_def)
  have h6: "\<not> list_all (str_includes partial_gitignore) gitIgnoreLines"
    by (simp add: gitIgnoreLines_def partial_gitignore_def)
  note r = reconcile_appends_whole_block [of partial_project partial_shopifyignore partial_gitignore]
  note a = r [THEN conjunct1, THEN mp, THEN mp, OF h1 h5]
  note b = r [THEN conjunct2, THEN mp, THEN mp, OF h2 h6]
  show ?thesis
    by (simp only: a b h1 h2 h3 h4 h5 h6 simp_thms)
qed


section \<open>The install: properties\<close>

text \<open>
  C8. In a directory without \<open>layout/theme.liquid\<close>, with \<open>node\<close> on the path, the
  install echoes the error and exits with status 1; no command has run and no file
  was created or changed. Both scripts.
\<close>

theorem install_refuses_without_theme:
  assumes "theme_liquid p = None" and "which env ''node''"
  shows "installTailwindCSS_index env p = (Exited 1, p, [Echo Not_shopify])
       \<and> installTailwindCSS_v3 env p = (Exited 1, p, [Echo Not_shopify])"
  using assms
  by (simp add: installTailwindCSS_index_def installTailwindCSS_v3_def checkNode_def
      checkShopifyProject_def isShopifyProject_def)

theorem install_refuses_without_theme_witness:
  "theme_liquid empty_directory = None \<and> which npm_env ''node''
   \<and> installTailwindCSS_index npm_env empty_directory
        = (Exited 1, empty_directory, [Echo Not_shopify])
   \<and> installTailwindCSS_v3 npm_env empty_directory
        = (Exited 1, empty_directory, [Echo Not_shopify])"
proof -
  have h1: "theme_liquid empty_directory = None" by (simp add: empty_directory_def)
  have h2: "which npm_env ''node''" by (simp add: npm_env_def node_present_def)
  note r = install_refuses_without_theme [OF h1 h2]
  show ?thesis by (intro conjI h1 h2 r [THEN conjunct1] r [THEN conjunct2])
qed



lemma in_sequence_Returned_Cons:
  "in_sequence (f # fs) p = (Returned, p', t) \<longleftrightarrow>
     (\<exists>q t1 t2. f p = (Returned, q, t1) \<and> in_sequence fs q = (Returned, p', t2) \<and> t = t1 @ t2)"
  by (auto split: prod.splits status.splits)

lemma checkNode_Returned:
  "checkNode env p = (Returned, q, t) \<longleftrightarrow> which env ''node'' \<and> q = p \<and> t = []"
  by (auto simp: checkNode_def)

lemma checkShopifyProject_Returned:
  "checkShopifyProject p = (Returned, q, t) \<longleftrightarrow> theme_liquid p \<noteq> None \<and> q = p \<and> t = []"
  by (auto simp: checkShopifyProject_def isShopifyProject_def)

lemma initialiseNpm_Returned:
  assumes "initialiseNpm env p = (Returned, q, t)"
  shows "(package_json p \<noteq> None \<and> q = p \<and> t = [])
       \<or> (package_json p = None \<and> q = snd (exec env ''npm init -y'' p)
           \<and> t = [Echo Initialising_npm, Exec ''npm init -y''])"
  using assms by (auto simp: initialiseNpm_def split: if_splits prod.splits)

lemma installDependencies_Returned:
  assumes "installDependencies env command p = (Returned, q, t)"
  shows "q = snd (exec env command p) \<and> t = [Echo Installing, Exec command]"
  using assms by (auto simp: installDependencies_def split: if_splits prod.splits)

lemma createStyles_Returned:
  assumes "createStyles p = (Returned, q, t)"
  shows "q = p\<lparr>tailwind_config_css :=
                  Some (case tailwind_config_css p of None \<Rightarrow> stylesTemplate | Some css \<Rightarrow> css)\<rparr>
       \<and> WriteFile ''layout/theme.liquid'' \<notin> set t"
  using assms by (auto simp: createStyles_def split: if_splits)

lemma addBuildScript_frame:
  assumes "addBuildScript p = (st, q, t)"
  shows "theme_liquid q = theme_liquid p \<and> tailwind_config_js q = tailwind_config_js p
       \<and> tailwind_config_css q = tailwind_config_css p
       \<and> gitignore q = gitignore p \<and> shopifyignore q = shopifyignore p
       \<and> WriteFile ''layout/theme.liquid'' \<notin> set t"
  using assms
  by (auto simp: addBuildScript_def Let_def split: option.splits manifest.splits if_splits)

lemma addTailwindToThemeLiquid_frame:
  assumes "addTailwindToThemeLiquid linkTag p = (st, q, t)"
  shows "st = Returned \<and> package_json q = package_json p
       \<and> tailwind_config_js q = tailwind_config_js p
       \<and> tailwind_config_css q = tailwind_config_css p
       \<and> gitignore q = gitignore p \<and> shopifyignore q = shopifyignore p"
  using assms
  by (auto simp: addTailwindToThemeLiquid_def Let_def split: option.splits if_splits)








lemma result_triple: "r = (status_of r, project_of r, events_of r)"
  by (simp add: status_of_def project_of_def events_of_def)






lemma install_index_Returned:
  assumes "installTailwindCSS_index env p = (Returned, p', t)"
  shows "\<exists>b c e f t3 t4 t5 t6 t7.
           which env ''node'' \<and> theme_liquid p \<noteq> None
         \<and> initialiseNpm env p = (Returned, b, t3)
         \<and> installDependencies env installCommand_index b = (Returned, c, t4)
         \<and> createStyles (c\<lparr>tailwind_config_js := Some customConfig\<rparr>) = (Returned, e, t5)
         \<and> addBuildScript e = (Returned, f, t6)
         \<and> addTailwindToThemeLiquid linkTag_index f = (Returned, p', t7)
         \<and> t = t3 @ t4 @ [Echo Generating_config, WriteFile ''tailwind.config.js'',
                           Echo Config_created] @ t5 @ t6 @ t7
                @ [Echo Success, Echo How_to_build, Echo Include_hint]"
  using assms
  unfolding installTailwindCSS_index_def addTailwindToThemeLiquid_index_def
    installCommand_index_def
  by (auto simp: in_sequence_Returned_Cons checkNode_Returned checkShopifyProject_Returned
      generateConfig_def announce_def simp del: in_sequence.simps(2))

lemma commands_Returned:
  assumes "initialiseNpm env p = (Returned, b, t3)"
      and "installDependencies env command b = (Returned, c, t4)"
  shows "c = after_commands env command p"
    and "WriteFile path \<notin> set (t3 @ t4)"
    and "package_json p \<noteq> None \<Longrightarrow> t3 = []"
  using initialiseNpm_Returned [OF assms(1)] installDependencies_Returned [OF assms(2)]
  by (auto simp: after_commands_def)

lemma patch_index_theme:
  assumes "addTailwindToThemeLiquid linkTag_index p = (st, q, t)"
      and "theme_liquid p = Some c"
  shows "\<exists>c'. theme_liquid q = Some c' \<and> str_includes c' linkFragment
           \<and> occurrences c' linkFragment = max 1 (occurrences c linkFragment)"
    and "str_includes c linkFragment \<Longrightarrow> q = p \<and> t = [Echo Link_exists]"
proof -
  show "str_includes c linkFragment \<Longrightarrow> q = p \<and> t = [Echo Link_exists]"
    using assms by (simp add: addTailwindToThemeLiquid_def)
  show "\<exists>c'. theme_liquid q = Some c' \<and> str_includes c' linkFragment
           \<and> occurrences c' linkFragment = max 1 (occurrences c linkFragment)"
  proof (cases "str_includes c linkFragment")
    case True
    then have "occurrences c linkFragment \<noteq> 0" by (simp add: occurrences_zero_iff)
    then have "occurrences c linkFragment = max 1 (occurrences c linkFragment)" by simp
    moreover from True assms have "theme_liquid q = Some c"
      by (simp add: addTailwindToThemeLiquid_def)
    ultimately show ?thesis using True by blast
  next
    case False
    let ?c' = "str_slice c 0 (str_indexOf c headEnd) @ linkTag_index
                 @ str_slice_from c (str_indexOf c headEnd)"
    from False have "\<not> str_includes (str_slice c 0 (str_indexOf c headEnd)
                       @ str_slice_from c (str_indexOf c headEnd)) linkFragment"
      by (simp add: slice_split)
    from patched_once [OF occurrences_linkTag_index this]
    have "occurrences ?c' linkFragment = 1" .
    then have one: "occurrences (toWellFormed ?c') linkFragment = 1"
      by (simp add: occurrences_toWellFormed linkFragment_facts)
    then have "str_includes (toWellFormed ?c') linkFragment"
      using occurrences_zero_iff [of "toWellFormed ?c'" linkFragment] by simp
    moreover from False have "occurrences c linkFragment = 0"
      by (simp add: occurrences_zero_iff)
    moreover from patch_absent_fragment [OF assms(2) False, of linkTag_index] assms(1)
    have "theme_liquid q = Some (toWellFormed ?c')" by auto
    ultimately show ?thesis using one by simp
  qed
qed

lemma map_of_stringify_parse:
  "map_of (map (map_prod id stringify_parse) kvs) k = map_option stringify_parse (map_of kvs k)"
  by (induction kvs) auto

lemma truthy_get_prop_cases:
  assumes "truthy (Some s)"
  obtains (obj) kvs where "s = JObj kvs"
        | (other) "get_prop s k = None" "set_prop s k w = s" "\<forall>kvs. s \<noteq> JObj kvs"
  using assms by (cases s) auto

lemma addBuildScript_Returned:
  assumes "addBuildScript p = (Returned, q, t)"
  obtains (array) xs where "package_json p = Some (Parsed (JArr xs))"
      "package_json q = Some (Parsed (stringify_parse (JArr xs)))"
  | (kept) kvs sc where "package_json p = Some (Parsed (JObj kvs))"
      "map_of kvs ''scripts'' = Some (JObj sc)" "truthy (map_of sc ''tailwind'')" "q = p"
  | (added) kvs sc where "package_json p = Some (Parsed (JObj kvs))"
      "map_of kvs ''scripts'' = Some (JObj sc)" "\<not> truthy (map_of sc ''tailwind'')"
      "package_json q = Some (Parsed (stringify_parse (JObj (AList.update ''scripts''
          (JObj (AList.update ''tailwind'' (JStr buildCommand) sc)) kvs))))"
  | (fresh) kvs where "package_json p = Some (Parsed (JObj kvs))"
      "\<not> truthy (map_of kvs ''scripts'')"
      "package_json q = Some (Parsed (stringify_parse (JObj (AList.update ''scripts''
          (JObj [(''tailwind'', JStr buildCommand)]) kvs))))"
  | (opaque) kvs s where "package_json p = Some (Parsed (JObj kvs))"
      "map_of kvs ''scripts'' = Some s" "truthy (Some s)" "\<forall>sc. s \<noteq> JObj sc"
      "package_json q = Some (Parsed (stringify_parse (JObj (AList.update ''scripts'' s kvs))))"
proof -
  from assms obtain m where m: "package_json p = Some (Parsed m)" and nn: "m \<noteq> JNull"
    by (auto simp: addBuildScript_def split: option.splits manifest.splits if_splits)
  show thesis
  proof (cases m)
    case (JArr xs)
    with assms m have "package_json q = Some (Parsed (stringify_parse (JArr xs)))"
      by (auto simp: addBuildScript_def Let_def)
    with JArr m show ?thesis by (intro array) auto
  next
    case (JObj kvs)
    show ?thesis
    proof (cases "truthy (map_of kvs ''scripts'')")
      case False
      with assms m JObj have "package_json q = Some (Parsed (stringify_parse (JObj (AList.update ''scripts''
          (JObj [(''tailwind'', JStr buildCommand)]) kvs))))"
        by (auto simp: addBuildScript_def Let_def split: option.splits)
      with False m JObj show ?thesis by (intro fresh) auto
    next
      case True
      then obtain s where s: "map_of kvs ''scripts'' = Some s" by (cases "map_of kvs ''scripts''") auto
      with True have ts: "truthy (Some s)" by simp
      from ts show ?thesis
      proof (cases s rule: truthy_get_prop_cases [where k = "''tailwind''" and w = "JStr buildCommand"])
        case (obj sc)
        show ?thesis
        proof (cases "truthy (map_of sc ''tailwind'')")
          case True
          with assms m JObj s obj have "q = p"
            by (auto simp: addBuildScript_def Let_def)
          with True m JObj s obj show ?thesis by (intro kept) auto
        next
          case False
          with assms m JObj s obj have "package_json q = Some (Parsed (stringify_parse (JObj (AList.update ''scripts''
            (JObj (AList.update ''tailwind'' (JStr buildCommand) sc)) kvs))))"
            by (auto simp: addBuildScript_def Let_def)
          with False m JObj s obj show ?thesis by (intro added) auto
        qed
      next
        case other
        with assms m JObj s ts have "package_json q
            = Some (Parsed (stringify_parse (JObj (AList.update ''scripts'' s kvs))))"
          by (auto simp: addBuildScript_def Let_def)
        with other m JObj s ts show ?thesis by (intro opaque) auto
      qed
    qed
  qed (use assms m nn in \<open>auto simp: addBuildScript_def Let_def\<close>)
qed

lemma opaque_written:
  assumes "truthy (Some s)" and "\<forall>sc. s \<noteq> JObj sc"
  shows "get_prop (stringify_parse s) k = None"
    and "stringify_parse s = JNull \<or> (truthy (Some (stringify_parse s))
          \<and> (\<forall>sc. stringify_parse s \<noteq> JObj sc))"
  using assms by (cases s; auto split: number.splits)+

lemma addBuildScript_settles:
  assumes "addBuildScript p = (Returned, q, t)"
  shows "\<exists>m. package_json q = Some (Parsed m)
           \<and> (settled m \<or> get_prop m ''scripts'' = Some JNull)"
  using assms
proof (cases rule: addBuildScript_Returned)
  case (opaque kvs s)
  from opaque_written(2) [OF opaque(3,4)] show ?thesis
  proof
    assume "stringify_parse s = JNull"
    with opaque(5) show ?thesis
      by (simp add: map_of_stringify_parse AList.update_conv')
  next
    assume "truthy (Some (stringify_parse s)) \<and> (\<forall>sc. stringify_parse s \<noteq> JObj sc)"
    with opaque(5) show ?thesis
      by (cases "stringify_parse s") (auto simp: map_of_stringify_parse AList.update_conv')
  qed
qed (auto simp: map_of_stringify_parse AList.update_conv' buildCommand_def)

lemma settled_scripts:
  assumes "package_json r = Some (Parsed m)" and "settled m"
      and "manifest_scripts p = manifest_scripts r"
  obtains (arrays) "\<forall>kvs. package_json p \<noteq> Some (Parsed (JObj kvs))" "tailwind_script r = None"
  | (objects) kvs sv where "package_json p = Some (Parsed (JObj kvs))"
      "map_of kvs ''scripts'' = Some sv" "truthy (Some sv)"
      "\<And>sc. sv = JObj sc \<Longrightarrow> truthy (map_of sc ''tailwind'')"
      "tailwind_script r = get_prop sv ''tailwind''"
proof (cases m)
  case (JArr xs)
  with assms have "\<forall>kvs. package_json p \<noteq> Some (Parsed (JObj kvs))" "tailwind_script r = None"
    by (auto simp: manifest_scripts_def tailwind_script_def)
  then show ?thesis by (rule arrays)
next
  case (JObj kvr)
  with assms(1,3) obtain kvs where p: "package_json p = Some (Parsed (JObj kvs))"
    and same: "map_of kvs ''scripts'' = map_of kvr ''scripts''"
    by (auto simp: manifest_scripts_def split: option.splits manifest.splits json.splits)
  from assms(2) JObj obtain sv where sv: "map_of kvr ''scripts'' = Some sv"
    by (cases "map_of kvr ''scripts''") auto
  with assms(2) JObj have "truthy (Some sv)"
    and "\<And>sc. sv = JObj sc \<Longrightarrow> truthy (map_of sc ''tailwind'')"
    by (auto split: json.splits)
  moreover from assms(1) JObj sv have "tailwind_script r = get_prop sv ''tailwind''"
    by (simp add: tailwind_script_def)
  ultimately show ?thesis using p same sv by (intro objects [of kvs sv]) auto
qed (use assms in auto)

lemma addBuildScript_on_settled:
  assumes "addBuildScript p = (Returned, q, t)"
      and "package_json r = Some (Parsed m)" and "settled m"
      and "manifest_scripts p = manifest_scripts r"
  shows "tailwind_script q = tailwind_script r" and "tailwind_script p = tailwind_script r"
proof -
  show "tailwind_script p = tailwind_script r"
    using assms(2-4)
  proof (cases rule: settled_scripts)
    case arrays
    from assms(1) show ?thesis
    proof (cases rule: addBuildScript_Returned)
      case (array xs)
      with arrays show ?thesis by (simp add: tailwind_script_def)
    qed (use arrays in auto)
  next
    case (objects kvs sv)
    then show ?thesis by (simp add: tailwind_script_def)
  qed
  show "tailwind_script q = tailwind_script r"
    using assms(2-4)
  proof (cases rule: settled_scripts)
    case arrays
    from assms(1) show ?thesis
    proof (cases rule: addBuildScript_Returned)
      case (array xs)
      with arrays show ?thesis by (simp add: tailwind_script_def)
    qed (use arrays in auto)
  next
    case (objects kvs sv)
    then have ts: "tailwind_script p = tailwind_script r"
      by (simp add: tailwind_script_def)
    from assms(1) show ?thesis
    proof (cases rule: addBuildScript_Returned)
      case (opaque kvs' s)
      with objects have sv: "sv = s" by simp
      from opaque_written(1) [OF opaque(3,4)] opaque(5)
      have "tailwind_script q = None"
        by (simp add: tailwind_script_def map_of_stringify_parse AList.update_conv')
      moreover from opaque(4) sv have "get_prop sv ''tailwind'' = None" by (cases s) auto
      ultimately show ?thesis using objects(5) by simp
    qed (use objects ts in auto)
  qed
qed

lemma manifest_scripts_frame:
  "manifest_scripts (p\<lparr>tailwind_config_js := x\<rparr>) = manifest_scripts p"
  "manifest_scripts (p\<lparr>tailwind_config_css := y\<rparr>) = manifest_scripts p"
  by (simp_all add: manifest_scripts_def)

lemma theme_before_patch:
  assumes "createStyles (c\<lparr>tailwind_config_js := Some customConfig\<rparr>) = (Returned, e, t5)"
      and "addBuildScript e = (Returned, f, t6)"
  shows "theme_liquid f = theme_liquid c"
    and "WriteFile ''layout/theme.liquid'' \<notin> set ([Echo Generating_config,
            WriteFile ''tailwind.config.js'', Echo Config_created] @ t5 @ t6)"
  using createStyles_Returned [OF assms(1)] addBuildScript_frame [OF assms(2)] by simp_all

lemma scripts_before_build_script:
  assumes "createStyles (c\<lparr>tailwind_config_js := Some customConfig\<rparr>) = (Returned, e, t5)"
  shows "manifest_scripts e = manifest_scripts c"
  using createStyles_Returned [OF assms] by (auto simp: manifest_scripts_frame)

lemma createStyles_present:
  assumes "createStyles p = (st, q, t)" and "tailwind_config_css p \<noteq> None"
  shows "t = [Echo Styles_exist]"
  using assms by (auto simp: createStyles_def)

lemma truthy_get_prop:
  assumes "truthy (get_prop v k)"
  obtains kvs where "v = JObj kvs" and "truthy (map_of kvs k)"
  using assms by (cases v) auto

lemma addBuildScript_present:
  assumes "addBuildScript p = (st, q, t)" and "truthy (tailwind_script p)"
  shows "t = [Echo Script_exists]"
proof -
  from assms(2) obtain m s where m: "package_json p = Some (Parsed m)"
    and s: "get_prop m ''scripts'' = Some s" and t: "truthy (get_prop s ''tailwind'')"
    by (auto simp: tailwind_script_def split: option.splits manifest.splits)
  from t obtain sc where sc: "s = JObj sc" "truthy (map_of sc ''tailwind'')"
    by (rule truthy_get_prop)
  from s have "truthy (get_prop m ''scripts'')" by (simp add: sc)
  then obtain kvs where "m = JObj kvs" by (rule truthy_get_prop)
  with assms(1) m s sc show ?thesis by (auto simp: addBuildScript_def Let_def)
qed

lemma styles_after_install:
  assumes "createStyles d = (Returned, e, t5)" and "addBuildScript e = (Returned, f, t6)"
      and "addTailwindToThemeLiquid linkTag f = (Returned, p', t7)"
  shows "tailwind_config_css p' \<noteq> None"
  using createStyles_Returned [OF assms(1)] addBuildScript_frame [OF assms(2)]
    addTailwindToThemeLiquid_frame [OF assms(3)] by simp

lemmas install_steps =
  installTailwindCSS_index_def checkNode_def checkShopifyProject_def
  isShopifyProject_def initialiseNpm_def installDependencies_def generateConfig_def
  createStyles_def addBuildScript_def announce_def addTailwindToThemeLiquid_index_def
  addTailwindToThemeLiquid_def Let_def status_of_def project_of_def events_of_def

lemma first_run_linked:
  assumes "str_includes s linkFragment"
  shows "status_of (installTailwindCSS_index npm_env (theme_only s)) = Returned"
    and "once_installed s = installed s"
  using assms
  by (simp_all add: once_installed_def install_steps npm_env_def npm_exec_def node_present_def
      theme_only_def fresh_manifest_def built_manifest_def installed_def)

lemma second_run_linked:
  assumes "str_includes s linkFragment"
  shows "status_of (installTailwindCSS_index idle_env (installed s)) = Returned"
    and "project_of (installTailwindCSS_index idle_env (installed s)) = installed s"
  using assms
  by (simp_all add: install_steps idle_env_def idle_exec_def node_present_def
      built_manifest_def installed_def buildCommand_def)

lemma first_run_plain:
  shows "status_of (installTailwindCSS_index npm_env (theme_only plain_theme)) = Returned"
    and "once_installed plain_theme = installed (text_of ''<head>'' @ linkTag_index @ headEnd)"
  by (simp_all add: once_installed_def install_steps npm_env_def npm_exec_def node_present_def
      theme_only_def fresh_manifest_def built_manifest_def installed_def plain_theme_def
      linkFragment_def headEnd_def str_slice_def str_slice_from_def text_of_def
      linkTag_index_def is_high_def is_low_def)

lemma linked_block: "str_includes (text_of ''<head>'' @ linkTag_index @ headEnd) linkFragment"
  by (simp add: linkTag_index_def linkFragment_def text_of_def)

lemma doubled_theme_count:
  "str_includes doubled_theme linkFragment" "occurrences doubled_theme linkFragment = 2"
  by (simp_all add: doubled_theme_def linkFragment_def text_of_def)

lemma odd_first_run:
  "installTailwindCSS_index idle_env odd_project
     = (Returned, odd_project,
        [Echo Installing, Exec ''npm install -D tailwindcss postcss autoprefixer'',
         Echo Generating_config, WriteFile ''tailwind.config.js'', Echo Config_created,
         Echo Styles_exist, WriteFile ''package.json'', Echo Script_added, Echo Link_exists,
         Echo Success, Echo How_to_build, Echo Include_hint])"
  by (simp add: install_steps idle_env_def idle_exec_def node_present_def odd_project_def
      odd_manifest_def linked_theme_def linkFragment_def text_of_def)

lemma infinite_runs:
  "status_of (installTailwindCSS_index idle_env (manifest_project infinite_manifest)) = Returned"
  "project_of (installTailwindCSS_index idle_env (manifest_project infinite_manifest))
     = manifest_project null_manifest"
  "status_of (installTailwindCSS_index idle_env (manifest_project null_manifest)) = Returned"
  "project_of (installTailwindCSS_index idle_env (manifest_project null_manifest))
     = manifest_project scripted_manifest"
  "tailwind_script (manifest_project null_manifest) = None"
  "tailwind_script (manifest_project scripted_manifest) = Some (JStr buildCommand)"
  by (simp_all add: install_steps idle_env_def idle_exec_def node_present_def
      manifest_project_def infinite_manifest_def null_manifest_def scripted_manifest_def
      linked_theme_def linkFragment_def text_of_def tailwind_script_def)

text \<open>
  C1, as the code has it. Two installs of \<open>index.js\<close> in a row that both run to
  their end, where the package manager's commands leave the template as it was in
  both runs and, in the second run, the scripts table of the manifest. After the
  second run the template is the one the first run left: the second run took the
  ``already exists'' branch of the patcher and did not write the template. The
  fragment occurs in it as often as in the template before the first run, or once if
  it did not occur there: exactly once when it occurred at most once. The \<open>tailwind\<close>
  entry is the one the first run left, unless the first run left \<open>scripts\<close> as \<open>null\<close>
  (which is how a \<open>scripts\<close> that was an infinite number is written). The second run
  also takes the ``already exists'' branch of the build script when the first run left
  a \<open>tailwind\<close> entry, and that of the CSS entry point when the package manager leaves
  that file alone in the second run.
\<close>

theorem second_install_changes_nothing:
  assumes run1: "installTailwindCSS_index env1 p0 = (Returned, p1, t1)"
      and run2: "installTailwindCSS_index env2 p1 = (Returned, p2, t2)"
      and k1: "theme_liquid (after_commands env1 installCommand_index p0) = theme_liquid p0"
      and k2: "theme_liquid (after_commands env2 installCommand_index p1) = theme_liquid p1"
      and ks: "manifest_scripts (after_commands env2 installCommand_index p1)
                 = manifest_scripts p1"
  shows "(manifest_scripts p1 \<noteq> Some (Some JNull) \<longrightarrow> tailwind_script p2 = tailwind_script p1)
       \<and> theme_liquid p2 = theme_liquid p1
       \<and> Echo Link_exists \<in> set t2 \<and> WriteFile ''layout/theme.liquid'' \<notin> set t2
       \<and> (\<exists>c0 c1. theme_liquid p0 = Some c0 \<and> theme_liquid p1 = Some c1
            \<and> occurrences c1 linkFragment = max 1 (occurrences c0 linkFragment))
       \<and> (truthy (tailwind_script p1) \<longrightarrow>
            Echo Script_exists \<in> set t2 \<and> WriteFile ''package.json'' \<notin> set t2)
       \<and> (tailwind_config_css (after_commands env2 installCommand_index p1)
             = tailwind_config_css p1 \<longrightarrow>
            Echo Styles_exist \<in> set t2 \<and> WriteFile ''tailwind-config.css'' \<notin> set t2)"
proof -
  from install_index_Returned [OF run1] obtain b c e f t3 t4 t5 t6 t7 where
    th0: "theme_liquid p0 \<noteq> None"
    and ab: "initialiseNpm env1 p0 = (Returned, b, t3)"
    and bc: "installDependencies env1 installCommand_index b = (Returned, c, t4)"
    and ce: "createStyles (c\<lparr>tailwind_config_js := Some customConfig\<rparr>) = (Returned, e, t5)"
    and ef: "addBuildScript e = (Returned, f, t6)"
    and fp: "addTailwindToThemeLiquid linkTag_index f = (Returned, p1, t7)"
    by blast
  from th0 obtain c0 where c0: "theme_liquid p0 = Some c0" by auto
  from theme_before_patch(1) [OF ce ef] commands_Returned(1) [OF ab bc] k1 c0
  have "theme_liquid f = Some c0" by simp
  from patch_index_theme(1) [OF fp this] obtain c1 where
    c1: "theme_liquid p1 = Some c1" and inc: "str_includes c1 linkFragment"
    and occ: "occurrences c1 linkFragment = max 1 (occurrences c0 linkFragment)" by blast
  from addBuildScript_settles [OF ef] addTailwindToThemeLiquid_frame [OF fp]
  obtain m where m: "package_json p1 = Some (Parsed m)"
    and sm: "settled m \<or> get_prop m ''scripts'' = Some JNull" by auto
  note css1 = styles_after_install [OF ce ef fp]
  from install_index_Returned [OF run2] obtain b' c' e' f' t3' t4' t5' t6' t7' where
    ab': "initialiseNpm env2 p1 = (Returned, b', t3')"
    and bc': "installDependencies env2 installCommand_index b' = (Returned, c', t4')"
    and ce': "createStyles (c'\<lparr>tailwind_config_js := Some customConfig\<rparr>) = (Returned, e', t5')"
    and ef': "addBuildScript e' = (Returned, f', t6')"
    and fp': "addTailwindToThemeLiquid linkTag_index f' = (Returned, p2, t7')"
    and t2: "t2 = t3' @ t4' @ [Echo Generating_config, WriteFile ''tailwind.config.js'',
                           Echo Config_created] @ t5' @ t6' @ t7'
                @ [Echo Success, Echo How_to_build, Echo Include_hint]"
    by blast
  note c' = commands_Returned(1) [OF ab' bc']
  have quiet34: "WriteFile path \<notin> set (t3' @ t4')" for path
    by (rule commands_Returned(2) [OF ab' bc'])
  from theme_before_patch [OF ce' ef'] c' k2 c1
  have thf': "theme_liquid f' = Some c1"
    and quiet: "WriteFile ''layout/theme.liquid'' \<notin> set ([Echo Generating_config,
            WriteFile ''tailwind.config.js'', Echo Config_created] @ t5' @ t6')"
    by simp_all
  from patch_index_theme(2) [OF fp' thf' inc] have same: "p2 = f'" and t7': "t7' = [Echo Link_exists]"
    by simp_all
  from scripts_before_build_script [OF ce'] c' ks
  have ms: "manifest_scripts e' = manifest_scripts p1" by simp
  have "tailwind_script p2 = tailwind_script p1" if "manifest_scripts p1 \<noteq> Some (Some JNull)"
  proof -
    from sm that m have "settled m"
      by (cases m) (auto simp: manifest_scripts_def)
    from addBuildScript_on_settled(1) [OF ef' m this ms] same show ?thesis by simp
  qed
  moreover from same thf' c1 have "theme_liquid p2 = theme_liquid p1" by simp
  moreover from t2 t7' have "Echo Link_exists \<in> set t2" by simp
  moreover from t2 t7' quiet quiet34 [of "''layout/theme.liquid''"]
  have "WriteFile ''layout/theme.liquid'' \<notin> set t2" by simp
  moreover have "Echo Script_exists \<in> set t2 \<and> WriteFile ''package.json'' \<notin> set t2"
    if tr: "truthy (tailwind_script p1)"
  proof -
    from tr m have "settled m"
      by (cases m) (auto simp: tailwind_script_def split: option.splits json.splits)
    from addBuildScript_on_settled(2) [OF ef' m this ms] tr
    have "truthy (tailwind_script e')" by simp
    from addBuildScript_present [OF ef' this] have "t6' = [Echo Script_exists]" .
    moreover from ce' have "WriteFile ''package.json'' \<notin> set t5'"
      by (auto simp: createStyles_def split: if_splits)
    ultimately show ?thesis using t2 t7' quiet34 [of "''package.json''"] by simp
  qed
  moreover have "Echo Styles_exist \<in> set t2 \<and> WriteFile ''tailwind-config.css'' \<notin> set t2"
    if "tailwind_config_css (after_commands env2 installCommand_index p1)
          = tailwind_config_css p1"
  proof -
    from that c' css1
    have "tailwind_config_css (c'\<lparr>tailwind_config_js := Some customConfig\<rparr>) \<noteq> None" by simp
    from createStyles_present [OF ce' this] have "t5' = [Echo Styles_exist]" .
    moreover from ef' have "WriteFile ''tailwind-config.css'' \<notin> set t6'"
      by (auto simp: addBuildScript_def Let_def split: option.splits manifest.splits if_splits)
    ultimately show ?thesis using t2 t7' quiet34 [of "''tailwind-config.css''"] by simp
  qed
  ultimately show ?thesis using c0 c1 occ by blast
qed

lemma idle_after_commands: "after_commands idle_env command p = p"
  by (simp add: after_commands_def idle_env_def idle_exec_def)

lemma npm_after_commands:
  "theme_liquid (after_commands npm_env command p) = theme_liquid p"
  by (simp add: after_commands_def npm_env_def npm_exec_def)

theorem second_install_changes_nothing_witness:
  "installTailwindCSS_index npm_env (theme_only plain_theme)
     = (Returned, once_installed plain_theme,
        events_of (installTailwindCSS_index npm_env (theme_only plain_theme)))
   \<and> installTailwindCSS_index idle_env (once_installed plain_theme)
     = (Returned, twice_installed plain_theme,
        events_of (installTailwindCSS_index idle_env (once_installed plain_theme)))
   \<and> theme_liquid (after_commands npm_env installCommand_index (theme_only plain_theme))
        = theme_liquid (theme_only plain_theme)
   \<and> theme_liquid (after_commands idle_env installCommand_index (once_installed plain_theme))
        = theme_liquid (once_installed plain_theme)
   \<and> manifest_scripts (after_commands idle_env installCommand_index (once_installed plain_theme))
        = manifest_scripts (once_installed plain_theme)
   \<and> manifest_scripts (once_installed plain_theme) \<noteq> Some (Some JNull)
   \<and> truthy (tailwind_script (once_installed plain_theme))
   \<and> tailwind_config_css (after_commands idle_env installCommand_index (once_installed plain_theme))
        = tailwind_config_css (once_installed plain_theme)
   \<and> tailwind_script (twice_installed plain_theme) = tailwind_script (once_installed plain_theme)
   \<and> theme_liquid (twice_installed plain_theme) = theme_liquid (once_installed plain_theme)
   \<and> Echo Link_exists
        \<in> set (events_of (installTailwindCSS_index idle_env (once_installed plain_theme)))
   \<and> WriteFile ''layout/theme.liquid''
        \<notin> set (events_of (installTailwindCSS_index idle_env (once_installed plain_theme)))
   \<and> (\<exists>c0 c1. theme_liquid (theme_only plain_theme) = Some c0
          \<and> theme_liquid (once_installed plain_theme) = Some c1
          \<and> occurrences c1 linkFragment = max 1 (occurrences c0 linkFragment))
   \<and> Echo Script_exists
        \<in> set (events_of (installTailwindCSS_index idle_env (once_installed plain_theme)))
   \<and> WriteFile ''package.json''
        \<notin> set (events_of (installTailwindCSS_index idle_env (once_installed plain_theme)))
   \<and> Echo Styles_exist
        \<in> set (events_of (installTailwindCSS_index idle_env (once_installed plain_theme)))
   \<and> WriteFile ''tailwind-config.css''
        \<notin> set (events_of (installTailwindCSS_index idle_env (once_installed plain_theme)))"
proof -
  have h1: "installTailwindCSS_index npm_env (theme_only plain_theme)
     = (Returned, once_installed plain_theme,
        events_of (installTailwindCSS_index npm_env (theme_only plain_theme)))"
    using result_triple [of "installTailwindCSS_index npm_env (theme_only plain_theme)"]
    by (simp only: first_run_plain(1) once_installed_def)
  have "status_of (installTailwindCSS_index idle_env (once_installed plain_theme)) = Returned"
    by (simp only: first_run_plain(2) second_run_linked(1) [OF linked_block])
  then have h2: "installTailwindCSS_index idle_env (once_installed plain_theme)
     = (Returned, twice_installed plain_theme,
        events_of (installTailwindCSS_index idle_env (once_installed plain_theme)))"
    using result_triple [of "installTailwindCSS_index idle_env (once_installed plain_theme)"]
    by (simp only: twice_installed_def)
  have h3: "truthy (tailwind_script (once_installed plain_theme))"
    and h4: "manifest_scripts (once_installed plain_theme) \<noteq> Some (Some JNull)"
    by (simp_all add: first_run_plain(2) installed_def tailwind_script_def manifest_scripts_def
        built_manifest_def buildCommand_def)
  have k1: "theme_liquid (after_commands npm_env installCommand_index (theme_only plain_theme))
        = theme_liquid (theme_only plain_theme)"
    by (rule npm_after_commands)
  have k2: "theme_liquid (after_commands idle_env installCommand_index (once_installed plain_theme))
        = theme_liquid (once_installed plain_theme)"
    and ks: "manifest_scripts (after_commands idle_env installCommand_index (once_installed plain_theme))
        = manifest_scripts (once_installed plain_theme)"
    and kc: "tailwind_config_css (after_commands idle_env installCommand_index (once_installed plain_theme))
        = tailwind_config_css (once_installed plain_theme)"
    by (simp_all only: idle_after_commands)
  note r = second_install_changes_nothing [OF h1 h2 k1 k2 ks]
  note r1 = r [THEN conjunct1, THEN mp, OF h4]
  note r5 = r [THEN conjunct2, THEN conjunct2, THEN conjunct2, THEN conjunct2]
  note r6 = r5 [THEN conjunct2, THEN conjunct1, THEN mp, OF h3]
  note r7 = r5 [THEN conjunct2, THEN conjunct2, THEN mp, OF kc]
  show ?thesis
    by (intro conjI h1 h2 h3 h4 k1 k2 ks kc r1
        r [THEN conjunct2, THEN conjunct1]
        r [THEN conjunct2, THEN conjunct2, THEN conjunct1]
        r [THEN conjunct2, THEN conjunct2, THEN conjunct2, THEN conjunct1]
        r5 [THEN conjunct1] r6 [THEN conjunct1] r6 [THEN conjunct2]
        r7 [THEN conjunct1] r7 [THEN conjunct2])
qed

text \<open>
  C1 as stated fails on a template that already holds the fragment twice: both
  installs run to their end and leave the template alone, with its two occurrences.
  On a manifest whose \<open>scripts\<close> is a string an install changes nothing in the
  directory, so that every further run is this same run, and it takes the ``added''
  branch of the build script, not the ``already exists'' one. And on a manifest whose
  \<open>scripts\<close> is the number \<open>1e999\<close> the first install writes \<open>scripts\<close> as \<open>null\<close> and
  leaves no \<open>tailwind\<close> entry, and the second one adds the entry.
\<close>

theorem second_install_keeps_two_links:
  "status_of (installTailwindCSS_index npm_env (theme_only doubled_theme)) = Returned
   \<and> status_of (installTailwindCSS_index idle_env (once_installed doubled_theme)) = Returned
   \<and> theme_liquid (twice_installed doubled_theme) = Some doubled_theme
   \<and> occurrences doubled_theme linkFragment = 2
   \<and> status_of (installTailwindCSS_index idle_env odd_project) = Returned
   \<and> project_of (installTailwindCSS_index idle_env odd_project) = odd_project
   \<and> Echo Script_added \<in> set (events_of (installTailwindCSS_index idle_env odd_project))
   \<and> Echo Script_exists \<notin> set (events_of (installTailwindCSS_index idle_env odd_project))
   \<and> status_of (installTailwindCSS_index idle_env (manifest_project infinite_manifest)) = Returned
   \<and> project_of (installTailwindCSS_index idle_env (manifest_project infinite_manifest))
        = manifest_project null_manifest
   \<and> status_of (installTailwindCSS_index idle_env (manifest_project null_manifest)) = Returned
   \<and> project_of (installTailwindCSS_index idle_env (manifest_project null_manifest))
        = manifest_project scripted_manifest
   \<and> tailwind_script (manifest_project null_manifest) = None
   \<and> tailwind_script (manifest_project scripted_manifest) = Some (JStr buildCommand)"
proof -
  note a = first_run_linked [OF doubled_theme_count(1)]
  note b = second_run_linked [OF doubled_theme_count(1)]
  have "theme_liquid (twice_installed doubled_theme) = Some doubled_theme"
    by (simp add: twice_installed_def a b) (simp add: installed_def)
  moreover have "status_of (installTailwindCSS_index idle_env (once_installed doubled_theme))
      = Returned"
    by (simp only: a b)
  moreover have "status_of (installTailwindCSS_index idle_env odd_project) = Returned"
    "project_of (installTailwindCSS_index idle_env odd_project) = odd_project"
    "Echo Script_added \<in> set (events_of (installTailwindCSS_index idle_env odd_project))"
    "Echo Script_exists \<notin> set (events_of (installTailwindCSS_index idle_env odd_project))"
    by (simp_all add: odd_first_run status_of_def project_of_def events_of_def)
  ultimately show ?thesis
    by (intro conjI a(1) doubled_theme_count(2) infinite_runs)
qed


section \<open>The version prompt: properties\<close>

lemma promptForVersion_result:
  "fst (promptForVersion answers) = map_option str_trim (List.find accepted answers)"
  by (induction answers) (auto simp: accepted_def Let_def split: prod.splits)

lemma promptForVersion_events:
  "snd (promptForVersion answers)
     = concat (map (\<lambda>a. [Question, Invalid_version]) (takeWhile (\<lambda>a. \<not> accepted a) answers))
       @ [Question]"
  by (induction answers) (auto simp: accepted_def Let_def split: prod.splits)

lemma trim_samples:
  "str_trim ''5'' = ''5''" "str_trim '' 4 '' = ''4''" "str_trim '' 3'' = ''3''"
  by (simp_all add: str_trim_def is_whitespace_def)


text \<open>
  C9, as the code has it. The answer is trimmed before it is compared. The value the
  prompt resolves with is always \<open>3\<close> or \<open>4\<close>; an answer that does not trim to one of
  them is followed by the error message and a new question; an answer that does, ends
  the prompt with its trimmed text; the result is the trimmed first such answer, and
  the questions asked are one for each answer before it and one more.
\<close>

theorem prompt_resolves_accepted_only:
  "(\<forall>v. fst (promptForVersion answers) = Some v \<longrightarrow> v = ''3'' \<or> v = ''4'')
   \<and> (\<not> accepted a \<longrightarrow>
        promptForVersion (a # answers)
          = (fst (promptForVersion answers),
             Question # Invalid_version # snd (promptForVersion answers)))
   \<and> (accepted a \<longrightarrow> promptForVersion (a # answers) = (Some (str_trim a), [Question]))
   \<and> fst (promptForVersion answers) = map_option str_trim (List.find accepted answers)
   \<and> snd (promptForVersion answers)
       = concat (map (\<lambda>a. [Question, Invalid_version]) (takeWhile (\<lambda>a. \<not> accepted a) answers))
         @ [Question]"
proof -
  have "v = ''3'' \<or> v = ''4''" if "fst (promptForVersion answers) = Some v" for v
  proof -
    from that obtain b where "List.find accepted answers = Some b" and "v = str_trim b"
      by (auto simp: promptForVersion_result)
    then show ?thesis by (auto simp: find_Some_iff accepted_def)
  qed
  moreover have "\<not> accepted a \<Longrightarrow> promptForVersion (a # answers)
          = (fst (promptForVersion answers),
             Question # Invalid_version # snd (promptForVersion answers))"
    by (auto simp: accepted_def Let_def split: prod.splits)
  moreover have "accepted a \<Longrightarrow> promptForVersion (a # answers) = (Some (str_trim a), [Question])"
    by (auto simp: accepted_def Let_def)
  ultimately show ?thesis using promptForVersion_result promptForVersion_events by blast
qed


theorem prompt_resolves_accepted_only_witness:
  "\<not> accepted ''5'' \<and> accepted '' 4 ''
   \<and> promptForVersion [''5'', '' 4 '', ''3''] = (Some ''4'', [Question, Invalid_version, Question])
   \<and> fst (promptForVersion [''5'', '' 4 '', ''3'']) = Some ''4''
   \<and> (''4'' = ''3'' \<or> ''4'' = ''4'')"
proof -
  have h1: "\<not> accepted ''5''" and h2: "accepted '' 4 ''"
    by (simp_all add: accepted_def trim_samples)
  note r = prompt_resolves_accepted_only [of "['' 4 '', ''3'']" "''5''"]
  note s = prompt_resolves_accepted_only [of "[''3'']" "'' 4 ''"]
  have inner: "promptForVersion ['' 4 '', ''3''] = (Some ''4'', [Question])"
    using s [THEN conjunct2, THEN conjunct2, THEN conjunct1, THEN mp, OF h2]
    by (simp only: trim_samples)
  have e: "promptForVersion [''5'', '' 4 '', ''3'']
             = (Some ''4'', [Question, Invalid_version, Question])"
    using r [THEN conjunct2, THEN conjunct1, THEN mp, OF h1]
    by (simp only: inner fst_conv snd_conv)
  have f: "fst (promptForVersion [''5'', '' 4 '', ''3'']) = Some ''4''"
    by (simp only: e fst_conv)
  note g = prompt_resolves_accepted_only [of "[''5'', '' 4 '', ''3'']", THEN conjunct1,
      THEN spec, THEN mp, OF f]
  show ?thesis by (intro conjI h1 h2 e f g)
qed


text \<open>
  C9 as stated fails at the answer \<open>" 3"\<close>: it is neither of the two accepted
  strings, yet there is no second question and the prompt resolves with \<open>3\<close>.
\<close>

theorem prompt_accepts_untrimmed_answer:
  "promptForVersion ['' 3''] = (Some ''3'', [Question]) \<and> '' 3'' \<noteq> ''3'' \<and> '' 3'' \<noteq> ''4''"
  by (simp add: trim_samples)

end
